theory Spec2Isabelle
  imports Main
begin

section \<open>Python strings\<close>

text \<open>
  A Python \<open>str\<close> is a sequence of Unicode code points; it is modelled as the list of
  their numbers, so that the characters beyond ASCII that \<open>app.py\<close> itself uses (an en
  dash, curly quotes) and every whitespace character of \<open>str.split\<close> are there.
  \<open>str\<close> turns an ASCII literal into such a list.
\<close>

type_synonym pystr = "nat list"

definition str :: "string \<Rightarrow> pystr" where
  "str s = map of_char s"

text \<open>
  \<open>str.isspace\<close> for one character, the test behind \<open>str.split()\<close> and
  \<open>str.strip()\<close> without arguments: the code points U+0009..U+000D, U+001C..U+0020,
  U+0085, U+00A0, U+1680, U+2000..U+200A, U+2028, U+2029, U+202F, U+205F and U+3000.
\<close>

definition is_space :: "nat \<Rightarrow> bool" where
  "is_space c \<longleftrightarrow>
     (9 \<le> c \<and> c \<le> 13) \<or> (28 \<le> c \<and> c \<le> 32) \<or> c = 133 \<or> c = 160 \<or> c = 5760 \<or>
     (8192 \<le> c \<and> c \<le> 8202) \<or> c = 8232 \<or> c = 8233 \<or> c = 8239 \<or> c = 8287 \<or>
     c = 12288"

text \<open>
  \<open>text.split()\<close>: one scan over the text; \<open>cur\<close> is the word being read. A
  whitespace character ends the word (an empty one is dropped), so runs of whitespace
  and whitespace at either end give no empty words.
\<close>

fun split_from :: "pystr \<Rightarrow> pystr \<Rightarrow> pystr list" where
  "split_from cur [] = (if cur = [] then [] else [cur])"
| "split_from cur (c # cs) =
     (if is_space c then (if cur = [] then split_from [] cs else cur # split_from [] cs)
      else split_from (cur @ [c]) cs)"

definition str_split :: "pystr \<Rightarrow> pystr list" where
  "str_split text = split_from [] text"

text \<open>\<open>sep.join(xs)\<close>.\<close>

fun str_join :: "pystr \<Rightarrow> pystr list \<Rightarrow> pystr" where
  "str_join sep [] = []"
| "str_join sep [x] = x"
| "str_join sep (x # y # ys) = x @ sep @ str_join sep (y # ys)"

text \<open>
  \<open>text.strip()\<close>: whitespace removed at both ends.
\<close>

definition str_strip :: "pystr \<Rightarrow> pystr" where
  "str_strip text = rev (dropWhile is_space (rev (dropWhile is_space text)))"

text \<open>
  The slice \<open>xs[:n]\<close> for a Python integer \<open>n\<close>: a negative \<open>n\<close> counts from
  the end, and nothing is out of range.
\<close>

definition slice_to :: "'a list \<Rightarrow> int \<Rightarrow> 'a list" where
  "slice_to xs n = (if 0 \<le> n then take (nat n) xs else take (nat (int (length xs) + n)) xs)"

text \<open>\<open>str(n)\<close> of an integer, as an f-string field prints it.\<close>

fun str_nat :: "nat \<Rightarrow> pystr" where
  "str_nat n = (if n < 10 then [48 + n] else str_nat (n div 10) @ [48 + n mod 10])"

declare str_nat.simps [simp del]

definition str_int :: "int \<Rightarrow> pystr" where
  "str_int i = (if i < 0 then 45 # str_nat (nat (- i)) else str_nat (nat i))"

section \<open>The response post-processor\<close>

text \<open>
  \<^verbatim>\<open>
  def enforce_word_limit(text: str, max_words: int) -> str:
      words = text.split()
      if len(words) <= max_words:
          return text
      return " ".join(words[:max_words]) + "..."
  \<close>
\<close>

definition enforce_word_limit :: "pystr \<Rightarrow> int \<Rightarrow> pystr" where
  "enforce_word_limit text max_words =
     (let words = str_split text in
      if int (length words) \<le> max_words then text
      else str_join (str '' '') (slice_to words max_words) @ str ''...'')"

section \<open>Values, exceptions and the platform\<close>

text \<open>
  The Python values an API key can be: \<open>None\<close>, the string of the environment, or
  whatever the secrets file holds under the key (a TOML string, integer, boolean, array
  or table; floats and dates are left out). \<open>truthy\<close> is Python's truth test, the one
  \<open>if not api_key\<close> applies.
\<close>

datatype pyval =
    PyNone
  | PyStr pystr
  | PyInt int
  | PyBool bool
  | PyList "pyval list"
  | PyDict "(pystr \<times> pyval) list"

fun truthy :: "pyval \<Rightarrow> bool" where
  "truthy PyNone = False"
| "truthy (PyStr s) = (s \<noteq> [])"
| "truthy (PyInt i) = (i \<noteq> 0)"
| "truthy (PyBool b) = b"
| "truthy (PyList xs) = (xs \<noteq> [])"
| "truthy (PyDict kvs) = (kvs \<noteq> [])"

text \<open>
  An exception that \<open>except Exception\<close> catches: the name of its class and what
  \<open>str(e)\<close> gives.
\<close>

datatype exn = Exception (exc_class: string) (exc_str: pystr)

type_synonym bytes = "nat list"

datatype client = Anthropic (api_key: pyval)

record request =
  req_model :: pystr
  req_max_tokens :: int
  req_system :: pystr
  req_media_type :: pystr
  req_data :: pystr
  req_text :: pystr

text \<open>A block of \<open>response.content\<close>: a text block, or one of another type.\<close>

datatype content_block = TextBlock pystr | OtherBlock

text \<open>
  What \<open>app.py\<close> calls and does not define, as parameters:
  \<^item> \<open>st_secrets\<close>: the top-level entries of the Streamlit secrets (reading them raises,
    or gives a mapping);
  \<^item> \<open>os_environ\<close>: the environment of the process before the script reads the
    secrets;
  \<^item> Pillow: \<open>Image.open\<close>, \<open>img.mode\<close>, \<open>img.convert\<close>,
    \<open>img.save(buf, format="PNG")\<close>, with \<open>'img\<close> for Pillow's image;
  \<^item> \<open>base64.b64encode(...).decode("utf-8")\<close>;
  \<^item> the model service behind \<open>client.messages.create\<close>.
\<close>

record 'img platform =
  st_secrets :: "exn + (pystr \<rightharpoonup> pyval)"
  os_environ :: "pystr \<rightharpoonup> pystr"
  Image_open :: "bytes \<Rightarrow> exn + 'img"
  image_mode :: "'img \<Rightarrow> pystr"
  image_convert :: "'img \<Rightarrow> pystr \<Rightarrow> exn + 'img"
  image_save_png :: "'img \<Rightarrow> exn + bytes"
  b64encode :: "bytes \<Rightarrow> pystr"
  messages_create :: "client \<Rightarrow> request \<Rightarrow> exn + content_block list"

section \<open>The Anthropic client helper\<close>

text \<open>
  \<^verbatim>\<open>
  def get_claude_client() -> anthropic.Anthropic:
      api_key = None
      try:
          if "ANTHROPIC_API_KEY" in st.secrets:
              api_key = st.secrets["ANTHROPIC_API_KEY"]
      except Exception:
          pass
      if not api_key:
          api_key = os.environ.get("ANTHROPIC_API_KEY")
      if not api_key:
          raise RuntimeError("Claude API key not found. ...")
      return anthropic.Anthropic(api_key=api_key)
  \<close>
\<close>

definition ANTHROPIC_API_KEY :: pystr where
  "ANTHROPIC_API_KEY = str ''ANTHROPIC_API_KEY''"

definition key_not_found :: exn where
  "key_not_found = Exception ''RuntimeError''
     (str ''Claude API key not found. Please set ANTHROPIC_API_KEY in Streamlit '' @
      str ''secrets or as an environment variable.'')"

definition secrets_lookup :: "'img platform \<Rightarrow> pyval" where
  "secrets_lookup P =
     (case st_secrets P of
        Inl e \<Rightarrow> PyNone
      | Inr secrets \<Rightarrow>
          (case secrets ANTHROPIC_API_KEY of None \<Rightarrow> PyNone | Some v \<Rightarrow> v))"

text \<open>
  When Streamlit reads the secrets (here at the test \<open>"ANTHROPIC_API_KEY" in st.secrets\<close>),
  it writes every top-level entry whose value is a string or an integer into
  \<open>os.environ\<close> as \<open>str(value)\<close>, over what the process had there; booleans, arrays
  and tables are not written. \<open>environ_after_secrets\<close> is \<open>os.environ\<close> as the
  script finds it afterwards, at \<open>os.environ.get\<close>.
\<close>

definition export_secrets :: "(pystr \<rightharpoonup> pyval) \<Rightarrow> (pystr \<rightharpoonup> pystr) \<Rightarrow> (pystr \<rightharpoonup> pystr)" where
  "export_secrets secrets environ =
     (\<lambda>k. case secrets k of
            Some (PyStr s) \<Rightarrow> Some s
          | Some (PyInt i) \<Rightarrow> Some (str_int i)
          | _ \<Rightarrow> environ k)"

definition environ_after_secrets :: "'img platform \<Rightarrow> (pystr \<rightharpoonup> pystr)" where
  "environ_after_secrets P =
     (case st_secrets P of
        Inl e \<Rightarrow> os_environ P
      | Inr secrets \<Rightarrow> export_secrets secrets (os_environ P))"

definition environ_get :: "'img platform \<Rightarrow> pyval" where
  "environ_get P =
     (case environ_after_secrets P ANTHROPIC_API_KEY of None \<Rightarrow> PyNone | Some s \<Rightarrow> PyStr s)"

definition get_claude_client :: "'img platform \<Rightarrow> exn + client" where
  "get_claude_client P =
     (let api_key = secrets_lookup P;
          api_key = (if \<not> truthy api_key then environ_get P else api_key)
      in if \<not> truthy api_key then Inl key_not_found else Inr (Anthropic api_key))"

section \<open>The image helper\<close>

text \<open>
  \<^verbatim>\<open>
  def to_png_bytes(raw_bytes: bytes) -> bytes:
      img = Image.open(BytesIO(raw_bytes))
      rgb = img.convert("RGBA") if img.mode in ("P", "LA") else img.convert("RGB")
      buf = BytesIO()
      rgb.save(buf, format="PNG")
      return buf.getvalue()
  \<close>
\<close>

definition to_png_bytes :: "'img platform \<Rightarrow> bytes \<Rightarrow> exn + bytes" where
  "to_png_bytes P raw_bytes =
     (case Image_open P raw_bytes of
        Inl e \<Rightarrow> Inl e
      | Inr img \<Rightarrow>
          (case (if image_mode P img = str ''P'' \<or> image_mode P img = str ''LA''
                 then image_convert P img (str ''RGBA'')
                 else image_convert P img (str ''RGB'')) of
             Inl e \<Rightarrow> Inl e
           | Inr rgb \<Rightarrow> image_save_png P rgb))"

section \<open>The Claude helper\<close>

text \<open>
  The f-string \<open>user_prompt\<close>: the text before its one field \<open>{max_words}\<close>, the
  field, and the text after it.
\<close>

definition prompt_before :: pystr where
  "prompt_before =
     [10] @
     str ''You will see an image. Follow this approach strictly:'' @ [10, 10] @
     str ''#Approach'' @ [10, 10] @
     str ''1. Begin your answer with a line in this exact format: **Picture '' @
     str ''Type:** <short type, e.g. '' @ [34] @ str ''Car picture'' @ [34] @
     str '', '' @ [34] @ str ''Baby picture'' @ [34] @
     str '', '' @ [34] @ str ''Food picture'' @ [34] @ str ''>.'' @ [10] @
     str ''2. After that, write a short 1'' @ [8211] @
     str ''2 sentence explanation of the overall picture.'' @ [10] @
     str ''3. Then explain the picture in **Markdown format** using descriptive '' @
     str ''language.'' @ [10] @
     str ''4. Keep the entire response under **''"

definition prompt_after :: pystr where
  "prompt_after =
     str '' words**, and never exceed **300 words** in any case. HARD LIMIT.'' @ [10] @
     str ''5. Format the description so it is easily scannable (for example, '' @
     str ''bullets with bold labels, short lines).'' @ [10] @
     str ''6. Use **only** what is visible in the provided image. Do not invent '' @
     str ''or guess hidden details.'' @ [10] @
     str ''7. Output **only** the description itself (starting with the '' @ [8220] @
     str ''Picture Type'' @ [8221] @
     str '' line). Do not repeat these instructions or add extra commentary.'' @ [10]"

definition user_prompt :: "int \<Rightarrow> pystr" where
  "user_prompt max_words = prompt_before @ str_int max_words @ prompt_after"

definition system_prompt :: pystr where
  "system_prompt =
     str ''You are an assistant that writes short, structured, accessible image '' @
     str ''descriptions for people who cannot see the image. Always start with '' @
     str ''a '' @ [39] @ str ''Picture Type'' @ [39] @
     str '' line and respect the word limit.''"

definition create_request :: "pystr \<Rightarrow> int \<Rightarrow> request" where
  "create_request b64_image max_words =
     \<lparr> req_model = str ''claude-3-haiku-20240307'',
       req_max_tokens = 600,
       req_system = system_prompt,
       req_media_type = str ''image/png'',
       req_data = b64_image,
       req_text = user_prompt max_words \<rparr>"

text \<open>
  \<open>[b.text for b in response.content if getattr(b, "type", None) == "text"]\<close>
\<close>

fun text_chunks :: "content_block list \<Rightarrow> pystr list" where
  "text_chunks [] = []"
| "text_chunks (TextBlock t # bs) = t # text_chunks bs"
| "text_chunks (OtherBlock # bs) = text_chunks bs"

text \<open>
  \<open>describe_image_with_claude\<close>, in the order of the source: the cap at 300, the
  image (which may raise), the client (which may raise), the one request (which may
  raise), the joined text, the post-processor. The second component is the list of the
  requests sent to the service.
\<close>

definition describe_image_with_claude ::
  "'img platform \<Rightarrow> bytes \<Rightarrow> int \<Rightarrow> (exn + pystr) \<times> (client \<times> request) list" where
  "describe_image_with_claude P image_bytes max_words0 =
     (let max_words = min max_words0 300 in
      case to_png_bytes P image_bytes of
        Inl e \<Rightarrow> (Inl e, [])
      | Inr png_bytes \<Rightarrow>
          (let b64_image = b64encode P png_bytes in
           case get_claude_client P of
             Inl e \<Rightarrow> (Inl e, [])
           | Inr client \<Rightarrow>
               (let req = create_request b64_image max_words in
                case messages_create P client req of
                  Inl e \<Rightarrow> (Inl e, [(client, req)])
                | Inr content \<Rightarrow>
                    (let description = str_join [10, 10] (text_chunks content)
                     in (Inr (enforce_word_limit description max_words), [(client, req)])))))"

section \<open>The Streamlit script\<close>

text \<open>
  \<open>json.dumps\<close> of a string (\<open>ensure_ascii\<close> is on): quotes around it, a
  backslash before a double quote and before a backslash, the short escapes for
  backspace, form feed, newline, carriage return and tab, every other character outside
  U+0020..U+007E as \<open>\uXXXX\<close> with four lower-case hex digits, and a character
  beyond U+FFFF as its surrogate pair.
\<close>

definition hex_digit :: "nat \<Rightarrow> nat" where
  "hex_digit d = (if d < 10 then 48 + d else 87 + d)"

definition hex4 :: "nat \<Rightarrow> pystr" where
  "hex4 n = [hex_digit (n div 4096 mod 16), hex_digit (n div 256 mod 16),
             hex_digit (n div 16 mod 16), hex_digit (n mod 16)]"

definition json_escape :: "nat \<Rightarrow> pystr" where
  "json_escape c =
     (if c = 92 then [92, 92]
      else if c = 34 then [92, 34]
      else if c = 8 then [92, 98]
      else if c = 12 then [92, 102]
      else if c = 10 then [92, 110]
      else if c = 13 then [92, 114]
      else if c = 9 then [92, 116]
      else if 32 \<le> c \<and> c \<le> 126 then [c]
      else if c < 65536 then [92, 117] @ hex4 c
      else [92, 117] @ hex4 (55296 + (c - 65536) div 1024 mod 1024) @
           [92, 117] @ hex4 (56320 + (c - 65536) mod 1024))"

definition json_dumps :: "pystr \<Rightarrow> pystr" where
  "json_dumps s = [34] @ concat (map json_escape s) @ [34]"

text \<open>
  The widgets of one run of the script: the uploaded file (\<open>None\<close> when there is
  none), the slider, and the four buttons. Streamlit runs the script from the top on
  every interaction, and a button is \<open>True\<close> only in the run its click starts.
\<close>

record widgets =
  uploaded_file :: "bytes option"
  max_words :: int
  describe_clicked :: bool
  clear_clicked :: bool
  copy_clicked :: bool
  clear2_clicked :: bool

text \<open>
  What a run puts on the page, in order. The style sheet, the header image and the
  title, which are the same in every run, are left out.
\<close>

datatype element =
    Img bytes
  | Warning pystr
  | Spinner pystr
  | Error pystr
  | Markdown pystr
  | Write pystr
  | Html pystr
  | Success pystr

text \<open>
  The result of a run: \<open>st.session_state.description\<close> at its end, the page, the
  requests sent to the service, and the exception that ended the run, if one left the
  script uncaught (Streamlit then reports it and draws nothing more).
\<close>

record run =
  description :: pystr
  elements :: "element list"
  requests :: "(client \<times> request) list"
  uncaught :: "exn option"

text \<open>
  \<^verbatim>\<open>
  if "description" not in st.session_state:
      st.session_state.description = ""
  \<close>
  The session state is \<open>None\<close> in the first run of a session.
\<close>

definition init_description :: "pystr option \<Rightarrow> pystr" where
  "init_description session = (case session of None \<Rightarrow> [] | Some d \<Rightarrow> d)"

text \<open>
  \<^verbatim>\<open>
  if clear_clicked:
      st.session_state.description = ""
  \<close>
\<close>

definition on_clear :: "widgets \<Rightarrow> pystr \<Rightarrow> pystr" where
  "on_clear w d = (if clear_clicked w then [] else d)"

text \<open>
  \<^verbatim>\<open>
  if describe_clicked:
      if uploaded_file is None:
          st.warning("Please upload an image first.")
      else:
          with st.spinner("Asking Claude to describe your image..."):
              try:
                  st.session_state.description = describe_image_with_claude(
                      uploaded_file.getvalue(), max_words).strip()
              except Exception as e:
                  st.error(f"Something went wrong talking to Claude: {e}")
  \<close>
\<close>

definition on_describe :: "'img platform \<Rightarrow> widgets \<Rightarrow> pystr \<Rightarrow> run" where
  "on_describe P w d =
     (if describe_clicked w then
        (case uploaded_file w of
           None \<Rightarrow>
             \<lparr> description = d,
               elements = [Warning (str ''Please upload an image first.'')],
               requests = [], uncaught = None \<rparr>
         | Some file \<Rightarrow>
             (case describe_image_with_claude P file (max_words w) of
                (Inr t, sent) \<Rightarrow>
                  \<lparr> description = str_strip t,
                    elements = [Spinner (str ''Asking Claude to describe your image...'')],
                    requests = sent, uncaught = None \<rparr>
              | (Inl e, sent) \<Rightarrow>
                  \<lparr> description = d,
                    elements =
                      [Spinner (str ''Asking Claude to describe your image...''),
                       Error (str ''Something went wrong talking to Claude: '' @ exc_str e)],
                    requests = sent, uncaught = None \<rparr>))
      else \<lparr> description = d, elements = [], requests = [], uncaught = None \<rparr>)"

text \<open>
  \<^verbatim>\<open>
  st.markdown("### Description")
  if st.session_state.description:
      st.markdown(st.session_state.description)
  else:
      st.write("_No description yet. Upload an image and click **Describe**._")
  \<close>
\<close>

definition show_description :: "pystr \<Rightarrow> element list" where
  "show_description d =
     [Markdown (str ''### Description''),
      if d \<noteq> [] then Markdown d
      else Write (str ''_No description yet. Upload an image and click **Describe**._'')]"

text \<open>
  \<^verbatim>\<open>
  if clear2_clicked:
      st.session_state.description = ""
  \<close>
\<close>

definition on_clear2 :: "widgets \<Rightarrow> pystr \<Rightarrow> pystr" where
  "on_clear2 w d = (if clear2_clicked w then [] else d)"

text \<open>
  \<^verbatim>\<open>
  if copy_clicked and st.session_state.description:
      st_html(f"""
          <script>
          navigator.clipboard.writeText({json.dumps(st.session_state.description)});
          </script>
          """, height=0)
      st.success("Description copied to clipboard!")
  \<close>
\<close>

definition copy_html :: "pystr \<Rightarrow> pystr" where
  "copy_html d =
     [10] @ str ''        <script>'' @
     [10] @ str ''        navigator.clipboard.writeText('' @ json_dumps d @ str '');'' @
     [10] @ str ''        </script>'' @
     [10] @ str ''        ''"

definition on_copy :: "widgets \<Rightarrow> pystr \<Rightarrow> element list" where
  "on_copy w d =
     (if copy_clicked w \<and> d \<noteq> []
      then [Html (copy_html d), Success (str ''Description copied to clipboard!'')]
      else [])"

text \<open>
  \<^verbatim>\<open>
  if uploaded_file:
      st.image(uploaded_file)
  \<close>
  To draw the upload, \<open>st.image\<close> opens it with Pillow, as \<open>to_png_bytes\<close> does.
  The call stands outside any \<open>try\<close>, so an exception of it ends the run.
\<close>

definition st_image :: "'img platform \<Rightarrow> bytes \<Rightarrow> exn + element" where
  "st_image P file =
     (case Image_open P file of
        Inl e \<Rightarrow> Inl e
      | Inr img \<Rightarrow> Inr (Img file))"

definition show_upload :: "'img platform \<Rightarrow> widgets \<Rightarrow> exn + element list" where
  "show_upload P w =
     (case uploaded_file w of
        None \<Rightarrow> Inr []
      | Some file \<Rightarrow> (case st_image P file of Inl e \<Rightarrow> Inl e | Inr el \<Rightarrow> Inr [el]))"

text \<open>
  One run of the script, from the session state it finds: the upload is drawn, then
  the handlers run in the order of the source. When drawing the upload raises, the
  handlers do not run and the session state keeps the description.
\<close>

definition script :: "'img platform \<Rightarrow> widgets \<Rightarrow> pystr option \<Rightarrow> run" where
  "script P w session =
     (let d0 = init_description session in
      case show_upload P w of
        Inl e \<Rightarrow> \<lparr> description = d0, elements = [], requests = [], uncaught = Some e \<rparr>
      | Inr preview \<Rightarrow>
          (let d1 = on_clear w d0;
               r = on_describe P w d1;
               d2 = description r;
               shown = show_description d2;
               d3 = on_clear2 w d2
           in \<lparr> description = d3,
                elements = preview @ elements r @ shown @ on_copy w d3,
                requests = requests r,
                uncaught = None \<rparr>))"

text \<open>
  A session: the runs one after the other, each with the platform and the widgets of
  its moment, starting from the empty session state.
\<close>

fun session_after :: "('img platform \<times> widgets) list \<Rightarrow> pystr option" where
  "session_after [] = None"
| "session_after (pw # earlier) =
     Some (description (script (fst pw) (snd pw) (session_after earlier)))"

text \<open>The runs the four buttons and the other widgets start.\<close>

definition describe_run :: "widgets \<Rightarrow> bool" where
  "describe_run w \<longleftrightarrow>
     describe_clicked w \<and> \<not> clear_clicked w \<and> \<not> copy_clicked w \<and> \<not> clear2_clicked w"

definition clear_run :: "widgets \<Rightarrow> bool" where
  "clear_run w \<longleftrightarrow>
     clear_clicked w \<and> \<not> describe_clicked w \<and> \<not> copy_clicked w \<and> \<not> clear2_clicked w"

definition copy_run :: "widgets \<Rightarrow> bool" where
  "copy_run w \<longleftrightarrow>
     copy_clicked w \<and> \<not> describe_clicked w \<and> \<not> clear_clicked w \<and> \<not> clear2_clicked w"

definition clear2_run :: "widgets \<Rightarrow> bool" where
  "clear2_run w \<longleftrightarrow>
     clear2_clicked w \<and> \<not> describe_clicked w \<and> \<not> clear_clicked w \<and> \<not> copy_clicked w"

definition other_run :: "widgets \<Rightarrow> bool" where
  "other_run w \<longleftrightarrow>
     \<not> describe_clicked w \<and> \<not> clear_clicked w \<and> \<not> copy_clicked w \<and> \<not> clear2_clicked w"

section \<open>The specification's credential resolution\<close>







section \<open>Decimal numerals\<close>

text \<open>The number that a text of decimal digits writes.\<close>

definition is_digit :: "nat \<Rightarrow> bool" where
  "is_digit c \<longleftrightarrow> 48 \<le> c \<and> c \<le> 57"

definition decimal_value :: "pystr \<Rightarrow> nat" where
  "decimal_value ds = foldl (\<lambda>n c. 10 * n + (c - 48)) 0 ds"

section \<open>Pillow's colour modes\<close>

text \<open>
  What the images of Pillow's modes \<open>L\<close>, \<open>LA\<close>, \<open>P\<close>, \<open>RGB\<close> and \<open>RGBA\<close>
  hold, pixel by pixel in reading order, each value from 0 to 255: grey; grey and
  alpha; an index into a palette whose entries are a colour and its alpha; colour;
  colour and alpha.
\<close>

type_synonym rgba = "nat \<times> nat \<times> nat \<times> nat"

datatype picture =
    L_picture "nat list"
  | LA_picture "(nat \<times> nat) list"
  | P_picture "rgba list" "nat list"
  | RGB_picture "(nat \<times> nat \<times> nat) list"
  | RGBA_picture "rgba list"

text \<open>\<open>img.mode\<close>.\<close>

fun mode_of :: "picture \<Rightarrow> pystr" where
  "mode_of (L_picture ps) = str ''L''"
| "mode_of (LA_picture ps) = str ''LA''"
| "mode_of (P_picture palette ps) = str ''P''"
| "mode_of (RGB_picture ps) = str ''RGB''"
| "mode_of (RGBA_picture ps) = str ''RGBA''"

text \<open>
  What a picture shows: the colour and the opacity of each pixel. A pixel without an
  alpha value is opaque; an index beyond the palette shows opaque black.
\<close>

fun visible :: "picture \<Rightarrow> rgba list" where
  "visible (L_picture ps) = map (\<lambda>l. (l, l, l, 255)) ps"
| "visible (LA_picture ps) = map (\<lambda>(l, a). (l, l, l, a)) ps"
| "visible (P_picture palette ps) =
     map (\<lambda>i. if i < length palette then palette ! i else (0, 0, 0, 255)) ps"
| "visible (RGB_picture ps) = map (\<lambda>(r, g, b). (r, g, b, 255)) ps"
| "visible (RGBA_picture ps) = ps"

text \<open>
  \<open>img.convert("RGBA")\<close> keeps colour and alpha of every pixel; \<open>img.convert("RGB")\<close>
  keeps the colour and drops the alpha.
\<close>

definition to_RGBA :: "picture \<Rightarrow> picture" where
  "to_RGBA p = RGBA_picture (visible p)"

definition to_RGB :: "picture \<Rightarrow> picture" where
  "to_RGB p = RGB_picture (map (\<lambda>(r, g, b, a). (r, g, b)) (visible p))"

text \<open>
  A platform whose images are these pictures: \<open>img.mode\<close> and the two conversions
  that \<open>to_png_bytes\<close> asks for are the ones above, everything else is the given
  platform's.
\<close>

definition with_pictures :: "picture platform \<Rightarrow> picture platform" where
  "with_pictures P =
     P\<lparr>image_mode := mode_of,
       image_convert :=
         (\<lambda>p m. if m = str ''RGBA'' then Inr (to_RGBA p)
                else if m = str ''RGB'' then Inr (to_RGB p)
                else image_convert P p m)\<rparr>"

text \<open>
  The picture that \<open>to_png_bytes\<close> hands to the PNG encoder, and a pixel made opaque.
\<close>

definition normalized :: "picture \<Rightarrow> picture" where
  "normalized p =
     (if mode_of p = str ''P'' \<or> mode_of p = str ''LA'' then to_RGBA p else to_RGB p)"

definition opaque :: "rgba \<Rightarrow> rgba" where
  "opaque c = (case c of (r, g, b, a) \<Rightarrow> (r, g, b, 255))"

section \<open>The stored description\<close>

text \<open>A text with no whitespace at either end.\<close>

definition trimmed :: "pystr \<Rightarrow> bool" where
  "trimmed d \<longleftrightarrow> d = [] \<or> (\<not> is_space (hd d) \<and> \<not> is_space (last d))"

section \<open>The copy script in the browser\<close>

text \<open>
  How a browser reads the markup that \<open>st_html\<close> is given (the HTML standard's script
  data state): the text of a \<open>script\<close> element runs from the end of its start tag to
  the first \<open></script\<close>, in letters of either case, that a tab, a line feed, a form
  feed, a space, \<open>/\<close> or \<open>>\<close> follows. Without such an end tag there is no script
  to run.
\<close>

definition ascii_lower :: "nat \<Rightarrow> nat" where
  "ascii_lower c = (if 65 \<le> c \<and> c \<le> 90 then c + 32 else c)"

definition script_end_tag :: "pystr \<Rightarrow> bool" where
  "script_end_tag s \<longleftrightarrow>
     map ascii_lower (take 8 s) = str ''</script'' \<and>
     (case drop 8 s of
        [] \<Rightarrow> False
      | c # cs \<Rightarrow> c = 9 \<or> c = 10 \<or> c = 12 \<or> c = 32 \<or> c = 47 \<or> c = 62)"

fun script_data :: "pystr \<Rightarrow> pystr option" where
  "script_data [] = None"
| "script_data (c # cs) =
     (if script_end_tag (c # cs) then Some [] else map_option ((#) c) (script_data cs))"

fun script_element :: "pystr \<Rightarrow> pystr option" where
  "script_element [] = None"
| "script_element (c # cs) =
     (if take 8 (c # cs) = str ''<script>'' then script_data (drop 8 (c # cs))
      else script_element cs)"

section \<open>A test platform\<close>

text \<open>
  A platform for concrete runs: no secrets file, the key \<open>sk\<close> in the environment, an
  image that opens in mode \<open>RGB\<close>, and a service that answers with the text
  \<open>" one two  three "\<close>, a block of another type, and the text \<open>"four"\<close>.
\<close>

definition test_platform :: "unit platform" where
  "test_platform =
     \<lparr> st_secrets = Inl (Exception ''FileNotFoundError'' (str ''No secrets found.'')),
       os_environ = Map.empty(ANTHROPIC_API_KEY \<mapsto> str ''sk''),
       Image_open = (\<lambda>b. Inr ()),
       image_mode = (\<lambda>i. str ''RGB''),
       image_convert = (\<lambda>i m. Inr ()),
       image_save_png = (\<lambda>i. Inr [137, 80, 78, 71]),
       b64encode = (\<lambda>b. str ''iVBORw==''),
       messages_create =
         (\<lambda>c r. Inr [TextBlock (str '' one two  three ''), OtherBlock, TextBlock (str ''four'')]) \<rparr>"

text \<open>
  The same platform with an upload that Pillow cannot identify, with no key in the
  environment, and with a service that cannot be reached.
\<close>

definition no_image_platform :: "unit platform" where
  "no_image_platform =
     test_platform\<lparr>Image_open :=
       (\<lambda>b. Inl (Exception ''UnidentifiedImageError'' (str ''cannot identify image file'')))\<rparr>"


definition no_service_platform :: "unit platform" where
  "no_service_platform =
     test_platform\<lparr>messages_create :=
       (\<lambda>c r. Inl (Exception ''APIConnectionError'' (str ''Connection error.'')))\<rparr>"




text \<open>
  The same platform with an upload that Pillow opens and then fails to load when it is
  converted, as it does for a file cut short.
\<close>

definition truncated_platform :: "unit platform" where
  "truncated_platform =
     test_platform\<lparr>image_convert :=
       (\<lambda>i m. Inl (Exception ''OSError'' (str ''image file is truncated'')))\<rparr>"

text \<open>
  A platform of pictures whose upload is an image of mode \<open>RGBA\<close> with two pixels, a
  fully transparent red one and an opaque blue one, and whose PNG encoder writes the
  PNG colour type and the values of the pixels.
\<close>

definition glass_picture :: picture where
  "glass_picture = RGBA_picture [(255, 0, 0, 0), (0, 0, 255, 255)]"

fun png_sketch :: "picture \<Rightarrow> bytes" where
  "png_sketch (L_picture ps) = 0 # ps"
| "png_sketch (LA_picture ps) = 4 # concat (map (\<lambda>(l, a). [l, a]) ps)"
| "png_sketch (P_picture palette ps) = 3 # ps"
| "png_sketch (RGB_picture ps) = 2 # concat (map (\<lambda>(r, g, b). [r, g, b]) ps)"
| "png_sketch (RGBA_picture ps) = 6 # concat (map (\<lambda>(r, g, b, a). [r, g, b, a]) ps)"

definition glass_base :: "picture platform" where
  "glass_base =
     \<lparr> st_secrets = Inl (Exception ''FileNotFoundError'' (str ''No secrets found.'')),
       os_environ = Map.empty(ANTHROPIC_API_KEY \<mapsto> str ''sk''),
       Image_open = (\<lambda>b. Inr glass_picture),
       image_mode = mode_of,
       image_convert = (\<lambda>p m. Inl (Exception ''ValueError'' (str ''conversion not supported''))),
       image_save_png = (\<lambda>p. Inr (png_sketch p)),
       b64encode = (\<lambda>b. str ''iVBORw==''),
       messages_create = (\<lambda>c r. Inr [TextBlock (str ''Picture'')]) \<rparr>"

definition glass_platform :: "picture platform" where
  "glass_platform = with_pictures glass_base"

text \<open>The same platform with a service whose answer is the text \<open></script>\<close>.\<close>

definition markup_platform :: "unit platform" where
  "markup_platform =
     test_platform\<lparr>messages_create := (\<lambda>c r. Inr [TextBlock (str ''</script>'')])\<rparr>"

text \<open>The text that the answer of \<open>test_platform\<close> is joined to.\<close>

definition test_answer :: pystr where
  "test_answer = str '' one two  three '' @ [10, 10] @ str ''four''"

definition test_widgets :: widgets where
  "test_widgets =
     \<lparr> uploaded_file = Some [255, 216, 255], max_words = 3, describe_clicked = False,
       clear_clicked = False, copy_clicked = False, clear2_clicked = False \<rparr>"

section \<open>Words\<close>

text \<open>A word: not empty, and no whitespace in it.\<close>

definition is_word :: "pystr \<Rightarrow> bool" where
  "is_word w \<longleftrightarrow> w \<noteq> [] \<and> list_all (\<lambda>c. \<not> is_space c) w"

lemma str_space [simp]: "str '' '' = [32]"
  by (simp add: str_def)

lemma str_ellipsis [simp]: "str ''...'' = [46, 46, 46]"
  by (simp add: str_def)

lemma split_from_no_space:
  "list_all (\<lambda>c. \<not> is_space c) w \<Longrightarrow> split_from cur (w @ rest) = split_from (cur @ w) rest"
  by (induction w arbitrary: cur) simp_all

lemma split_from_words:
  "list_all (\<lambda>c. \<not> is_space c) cur \<Longrightarrow> list_all is_word (split_from cur s)"
proof (induction s arbitrary: cur)
  case Nil
  then show ?case by (simp add: is_word_def)
next
  case (Cons c cs)
  have e: "list_all (\<lambda>c. \<not> is_space c) ([]::pystr)" by simp
  show ?case
  proof (cases "is_space c")
    case True
    with Cons.prems Cons.IH [OF e] show ?thesis by (simp add: is_word_def)
  next
    case False
    with Cons.prems have "list_all (\<lambda>c. \<not> is_space c) (cur @ [c])" by simp
    from Cons.IH [OF this] False show ?thesis by simp
  qed
qed

lemma str_split_words: "list_all is_word (str_split text)"
  unfolding str_split_def by (rule split_from_words) simp

lemma split_from_word_space:
  assumes "is_word w"
  shows "split_from [] (w @ 32 # rest) = w # split_from [] rest"
proof -
  from assms have "split_from [] (w @ 32 # rest) = split_from w (32 # rest)"
    using split_from_no_space [of w "[]" "32 # rest"] by (simp add: is_word_def)
  also from assms have "\<dots> = w # split_from [] rest"
    by (simp add: is_word_def is_space_def)
  finally show ?thesis .
qed

lemma split_from_last_word:
  assumes "is_word w"
  shows "split_from [] (w @ [46, 46, 46]) = [w @ [46, 46, 46]]"
proof -
  from assms have "list_all (\<lambda>c. \<not> is_space c) (w @ [46, 46, 46])"
    by (simp add: is_word_def is_space_def)
  from split_from_no_space [OF this, of "[]" "[]"] show ?thesis by simp
qed

lemma split_join_ellipsis:
  "ws \<noteq> [] \<Longrightarrow> list_all is_word ws \<Longrightarrow>
   split_from [] (str_join [32] ws @ [46, 46, 46]) = butlast ws @ [last ws @ [46, 46, 46]]"
proof (induction "[32::nat]" ws rule: str_join.induct)
  case 1
  then show ?case by simp
next
  case (2 x)
  then show ?case by (simp add: split_from_last_word)
next
  case (3 x y ys)
  then show ?case by (simp add: split_from_word_space)
qed

lemma slice_to_words:
  assumes "1 \<le> n" and "n < int (length ws)"
  shows "slice_to ws n = take (nat n) ws" and "slice_to ws n \<noteq> []"
    and "length (slice_to ws n) = nat n"
  using assms by (auto simp: slice_to_def)

lemma enforce_word_limit_short:
  "int (length (str_split text)) \<le> w \<Longrightarrow> enforce_word_limit text w = text"
  by (simp add: enforce_word_limit_def)

lemma enforce_word_limit_long:
  assumes "1 \<le> w" and "w < int (length (str_split text))"
  shows "enforce_word_limit text w = str_join [32] (take (nat w) (str_split text)) @ [46, 46, 46]"
    and "str_split (enforce_word_limit text w) =
      take (nat w - 1) (str_split text) @ [str_split text ! (nat w - 1) @ [46, 46, 46]]"
proof -
  define ws where "ws = str_split text"
  define ks where "ks = take (nat w) ws"
  from assms have n: "1 \<le> w" "w < int (length ws)"
    by (simp_all add: ws_def)
  show out: "enforce_word_limit text w = str_join [32] (take (nat w) (str_split text)) @ [46, 46, 46]"
    using assms slice_to_words(1) [OF n] by (simp add: enforce_word_limit_def ws_def)
  have ks: "ks \<noteq> []" "length ks = nat w"
    using n by (auto simp: ks_def)
  have "list_all is_word ws"
    unfolding ws_def by (rule str_split_words)
  then have "list_all is_word ks"
    unfolding ks_def list_all_iff by (auto dest: in_set_takeD)
  from split_join_ellipsis [OF ks(1) this]
  have sp: "str_split (enforce_word_limit text w) = butlast ks @ [last ks @ [46, 46, 46]]"
    by (simp add: out str_split_def ks_def ws_def)
  have bl: "butlast ks = take (nat w - 1) ws"
    using n by (simp add: ks_def butlast_take)
  have la: "last ks = ws ! (nat w - 1)"
    using n ks by (simp add: ks_def last_conv_nth)
  from sp bl la show "str_split (enforce_word_limit text w) =
      take (nat w - 1) (str_split text) @ [str_split text ! (nat w - 1) @ [46, 46, 46]]"
    by (simp add: ws_def)
qed

lemma enforce_word_limit_length:
  assumes "1 \<le> w"
  shows "int (length (str_split (enforce_word_limit text w))) \<le> w"
proof (cases "int (length (str_split text)) \<le> w")
  case True
  then show ?thesis by (simp add: enforce_word_limit_short)
next
  case False
  with assms enforce_word_limit_long(2) [of w "text"] show ?thesis by simp
qed

section \<open>Claims about the response post-processor\<close>

text \<open>
  C1. For every word limit \<open>w\<close> from 1 to 300 and every text, \<open>enforce_word_limit\<close>
  returns a text of at most \<open>w\<close> whitespace-delimited words. A text of at most \<open>w\<close>
  words is returned unchanged. A longer one becomes its first \<open>w\<close> words, joined by
  single spaces, followed by the ellipsis \<open>...\<close>; read back as words, that is the
  first \<open>w\<close> words with the ellipsis attached to the last, \<open>w\<close> words in all.
\<close>

theorem enforce_word_limit_at_most:
  assumes "1 \<le> w" and "w \<le> 300"
  shows "int (length (str_split (enforce_word_limit text w))) \<le> w \<and>
    (int (length (str_split text)) \<le> w \<longrightarrow> enforce_word_limit text w = text) \<and>
    (w < int (length (str_split text)) \<longrightarrow>
       enforce_word_limit text w = str_join (str '' '') (take (nat w) (str_split text)) @ str ''...'' \<and>
       str_split (enforce_word_limit text w) =
         take (nat w - 1) (str_split text) @ [str_split text ! (nat w - 1) @ str ''...''] \<and>
       int (length (str_split (enforce_word_limit text w))) = w)"
proof (intro conjI impI)
  show "int (length (str_split (enforce_word_limit text w))) \<le> w"
    using assms(1) by (rule enforce_word_limit_length)
next
  assume "int (length (str_split text)) \<le> w"
  then show "enforce_word_limit text w = text"
    by (rule enforce_word_limit_short)
next
  assume long: "w < int (length (str_split text))"
  from enforce_word_limit_long(1) [OF assms(1) long]
  show "enforce_word_limit text w =
      str_join (str '' '') (take (nat w) (str_split text)) @ str ''...''"
    by simp
  from enforce_word_limit_long(2) [OF assms(1) long]
  show words: "str_split (enforce_word_limit text w) =
      take (nat w - 1) (str_split text) @ [str_split text ! (nat w - 1) @ str ''...'']"
    by simp
  from assms(1) long show "int (length (str_split (enforce_word_limit text w))) = w"
    by (simp add: words)
qed

theorem enforce_word_limit_at_most_witness:
  "(1::int) \<le> 2 \<and> (2::int) \<le> 300 \<and>
   (2::int) < int (length (str_split (str ''one  two three''))) \<and>
   enforce_word_limit (str ''one  two three'') 2 = str ''one two...'' \<and>
   str_split (enforce_word_limit (str ''one  two three'') 2) = [str ''one'', str ''two...''] \<and>
   enforce_word_limit (str ''one  two'') 2 = str ''one  two''"
proof -
  have w: "(1::int) \<le> 2" "(2::int) \<le> 300"
    by simp_all
  have s: "str_split (str ''one  two three'') = [str ''one'', str ''two'', str ''three'']"
    by (simp add: str_split_def str_def is_space_def)
  have t: "str_split (str ''one  two'') = [str ''one'', str ''two'']"
    by (simp add: str_split_def str_def is_space_def)
  from enforce_word_limit_at_most [OF w, of "str ''one  two three''"]
    enforce_word_limit_at_most [OF w, of "str ''one  two''"] s t
  show ?thesis
    by (simp add: str_def str_split_def is_space_def)
qed

section \<open>Credential resolution\<close>

lemma get_claude_client_cases:
  "get_claude_client P =
     (if truthy (secrets_lookup P) then Inr (Anthropic (secrets_lookup P))
      else if truthy (environ_get P) then Inr (Anthropic (environ_get P))
      else Inl key_not_found)"
  by (simp add: get_claude_client_def Let_def)














section \<open>The Claude helper: what is sent and what comes back\<close>

lemma describe_sent:
  assumes "(c, r) \<in> set (snd (describe_image_with_claude P b v))"
  shows "\<exists>png. to_png_bytes P b = Inr png \<and> get_claude_client P = Inr c \<and>
    r = create_request (b64encode P png) (min v 300)"
  using assms
  by (auto simp: describe_image_with_claude_def Let_def split: sum.splits)

lemma describe_success:
  assumes "fst (describe_image_with_claude P b v) = Inr t"
  shows "\<exists>png c content.
    to_png_bytes P b = Inr png \<and> get_claude_client P = Inr c \<and>
    messages_create P c (create_request (b64encode P png) (min v 300)) = Inr content \<and>
    snd (describe_image_with_claude P b v) =
      [(c, create_request (b64encode P png) (min v 300))] \<and>
    t = enforce_word_limit (str_join [10, 10] (text_chunks content)) (min v 300)"
  using assms
  by (auto simp: describe_image_with_claude_def Let_def split: sum.splits)



lemma test_platform_describe:
  "describe_image_with_claude test_platform b v =
     (Inr (enforce_word_limit test_answer (min v 300)),
      [(Anthropic (PyStr (str ''sk'')), create_request (str ''iVBORw=='') (min v 300))])"
  by (simp add: describe_image_with_claude_def to_png_bytes_def get_claude_client_cases
      secrets_lookup_def environ_get_def environ_after_secrets_def test_platform_def
      test_answer_def Let_def str_def)

lemma test_answer_cut:
  "enforce_word_limit test_answer 3 =
     str ''one two three...''"
  by (simp add: enforce_word_limit_def test_answer_def str_split_def str_def is_space_def
      slice_to_def)

lemma test_answer_kept:
  "enforce_word_limit test_answer 300 =
     test_answer"
  by (simp add: enforce_word_limit_def test_answer_def str_split_def str_def is_space_def)

section \<open>The number in the prompt\<close>

lemma decimal_value_snoc: "decimal_value (ds @ [c]) = 10 * decimal_value ds + (c - 48)"
  by (simp add: decimal_value_def)

lemma str_nat_not_empty: "str_nat n \<noteq> []"
  by (subst str_nat.simps) simp

lemma str_nat_digits: "list_all is_digit (str_nat n)"
proof (induction n rule: str_nat.induct)
  case (1 n)
  show ?case
  proof (cases "n < 10")
    case True
    then show ?thesis
      by (subst str_nat.simps) (simp add: is_digit_def)
  next
    case False
    have "n mod 10 < 10"
      by simp
    then have "is_digit (48 + n mod 10)"
      unfolding is_digit_def by linarith
    with False "1.IH" show ?thesis
      by (subst str_nat.simps) simp
  qed
qed

lemma str_nat_value: "decimal_value (str_nat n) = n"
proof (induction n rule: str_nat.induct)
  case (1 n)
  show ?case
  proof (cases "n < 10")
    case True
    then show ?thesis
      by (subst str_nat.simps) (simp add: decimal_value_def)
  next
    case False
    with "1.IH" show ?thesis
      by (subst str_nat.simps) (simp add: decimal_value_snoc)
  qed
qed

lemma str_nat_no_leading_zero: "n \<noteq> 0 \<Longrightarrow> hd (str_nat n) \<noteq> 48"
proof (induction n rule: str_nat.induct)
  case (1 n)
  show ?case
  proof (cases "n < 10")
    case True
    with "1.prems" show ?thesis
      by (subst str_nat.simps) simp
  next
    case False
    then have "n div 10 \<noteq> 0"
      by simp
    with False "1.IH" have "hd (str_nat (n div 10)) \<noteq> 48"
      by simp
    with False show ?thesis
      by (subst str_nat.simps) (simp add: str_nat_not_empty)
  qed
qed

lemma str_int_numeral:
  assumes "1 \<le> n"
  shows "str_int n \<noteq> []" and "list_all is_digit (str_int n)" and "hd (str_int n) \<noteq> 48"
    and "int (decimal_value (str_int n)) = n"
  using assms
  by (simp_all add: str_int_def str_nat_not_empty str_nat_digits str_nat_value
      str_nat_no_leading_zero)

lemma str_int_300: "str_int 300 = str ''300''" and str_int_3: "str_int 3 = str ''3''"
  by (simp_all add: str_int_def str_nat.simps str_def)

lemma length_prompt_before: "length prompt_before = 399"
  by (simp add: prompt_before_def str_def)

lemma prompt_before_end:
  "drop 363 prompt_before = str ''4. Keep the entire response under **''"
  by (simp add: prompt_before_def str_def)

lemma prompt_after_start: "take 8 prompt_after = str '' words**''"
  by (simp add: prompt_after_def str_def)

lemma prompt_line:
  "take 47 (drop 363 (prompt_before @ ds @ prompt_after)) =
     take 47 (str ''4. Keep the entire response under **'' @ ds @ prompt_after)"
  by (simp add: length_prompt_before prompt_before_end)

lemma prompt_line_300:
  "take 47 (drop 363 (prompt_before @ str ''300'' @ prompt_after)) =
     str ''4. Keep the entire response under **300 words**''"
  unfolding prompt_line
  by (simp add: str_def) (simp add: prompt_after_start [unfolded str_def])

section \<open>Claims about the word limit\<close>

text \<open>
  C3. For every slider value \<open>v\<close> the limit used downstream is \<open>min v 300\<close>, at both
  checkpoints. Every request sent carries the prompt written for \<open>min v 300\<close>: the
  fixed text with, between \<open>under **\<close> and \<open> words**\<close>, the number; for \<open>v\<close> of at
  least 1 that is the decimal numeral of \<open>min v 300\<close>, digits only and without a
  leading zero. A description that comes back is the post-processor's output for the
  service's text and \<open>min v 300\<close>, so for \<open>v\<close> of at least 1 it has at most
  \<open>min v 300\<close> words.
\<close>

theorem describe_uses_capped_limit:
  "(\<forall>(c, r) \<in> set (snd (describe_image_with_claude P b v)).
      req_text r = user_prompt (min v 300)) \<and>
   (\<forall>t. fst (describe_image_with_claude P b v) = Inr t \<longrightarrow>
      (\<exists>c r content. (c, r) \<in> set (snd (describe_image_with_claude P b v)) \<and>
         messages_create P c r = Inr content \<and>
         t = enforce_word_limit (str_join [10, 10] (text_chunks content)) (min v 300))) \<and>
   (\<forall>t. 1 \<le> v \<and> fst (describe_image_with_claude P b v) = Inr t \<longrightarrow>
      int (length (str_split t)) \<le> min v 300) \<and>
   (\<forall>(c, r) \<in> set (snd (describe_image_with_claude P b v)).
      req_text r = prompt_before @ str_int (min v 300) @ prompt_after) \<and>
   (1 \<le> v \<longrightarrow>
      str_int (min v 300) \<noteq> [] \<and> list_all is_digit (str_int (min v 300)) \<and>
      hd (str_int (min v 300)) \<noteq> 48 \<and>
      int (decimal_value (str_int (min v 300))) = min v 300)"
proof (intro conjI)
  show "\<forall>(c, r) \<in> set (snd (describe_image_with_claude P b v)).
      req_text r = user_prompt (min v 300)"
  proof clarify
    fix c r
    assume "(c, r) \<in> set (snd (describe_image_with_claude P b v))"
    from describe_sent [OF this] show "req_text r = user_prompt (min v 300)"
      by (auto simp: create_request_def)
  qed
next
  show "\<forall>t. fst (describe_image_with_claude P b v) = Inr t \<longrightarrow>
      (\<exists>c r content. (c, r) \<in> set (snd (describe_image_with_claude P b v)) \<and>
         messages_create P c r = Inr content \<and>
         t = enforce_word_limit (str_join [10, 10] (text_chunks content)) (min v 300))"
  proof (intro allI impI)
    fix t
    assume "fst (describe_image_with_claude P b v) = Inr t"
    from describe_success [OF this] obtain png c content where
      "messages_create P c (create_request (b64encode P png) (min v 300)) = Inr content"
      "snd (describe_image_with_claude P b v) =
         [(c, create_request (b64encode P png) (min v 300))]"
      "t = enforce_word_limit (str_join [10, 10] (text_chunks content)) (min v 300)"
      by blast
    then show "\<exists>c r content. (c, r) \<in> set (snd (describe_image_with_claude P b v)) \<and>
         messages_create P c r = Inr content \<and>
         t = enforce_word_limit (str_join [10, 10] (text_chunks content)) (min v 300)"
      by (intro exI [of _ c] exI [of _ "create_request (b64encode P png) (min v 300)"]
          exI [of _ content]) simp
  qed
next
  show "\<forall>t. 1 \<le> v \<and> fst (describe_image_with_claude P b v) = Inr t \<longrightarrow>
      int (length (str_split t)) \<le> min v 300"
  proof (intro allI impI, elim conjE)
    fix t
    assume v: "1 \<le> v" and "fst (describe_image_with_claude P b v) = Inr t"
    from describe_success [OF this(2)] obtain content where
      t: "t = enforce_word_limit (str_join [10, 10] (text_chunks content)) (min v 300)"
      by blast
    from v have "1 \<le> min v 300"
      by simp
    from enforce_word_limit_length [OF this] show "int (length (str_split t)) \<le> min v 300"
      unfolding t .
  qed
next
  show "\<forall>(c, r) \<in> set (snd (describe_image_with_claude P b v)).
      req_text r = prompt_before @ str_int (min v 300) @ prompt_after"
  proof clarify
    fix c r
    assume "(c, r) \<in> set (snd (describe_image_with_claude P b v))"
    from describe_sent [OF this]
    show "req_text r = prompt_before @ str_int (min v 300) @ prompt_after"
      by (auto simp: create_request_def user_prompt_def)
  qed
next
  show "1 \<le> v \<longrightarrow>
      str_int (min v 300) \<noteq> [] \<and> list_all is_digit (str_int (min v 300)) \<and>
      hd (str_int (min v 300)) \<noteq> 48 \<and>
      int (decimal_value (str_int (min v 300))) = min v 300"
  proof
    assume "1 \<le> v"
    then have "1 \<le> min v 300"
      by simp
    from str_int_numeral [OF this] show "str_int (min v 300) \<noteq> [] \<and>
      list_all is_digit (str_int (min v 300)) \<and> hd (str_int (min v 300)) \<noteq> 48 \<and>
      int (decimal_value (str_int (min v 300))) = min v 300"
      by simp
  qed
qed

theorem describe_uses_capped_limit_witness:
  "snd (describe_image_with_claude test_platform [255, 216, 255] 500) =
     [(Anthropic (PyStr (str ''sk'')), create_request (str ''iVBORw=='') 300)] \<and>
   req_text (create_request (str ''iVBORw=='') 300) =
     prompt_before @ str ''300'' @ prompt_after \<and>
   take 47 (drop 363 (req_text (create_request (str ''iVBORw=='') 300))) =
     str ''4. Keep the entire response under **300 words**'' \<and>
   (1::int) \<le> 500 \<and> decimal_value (str ''300'') = 300 \<and>
   snd (describe_image_with_claude test_platform [255, 216, 255] 3) =
     [(Anthropic (PyStr (str ''sk'')), create_request (str ''iVBORw=='') 3)] \<and>
   req_text (create_request (str ''iVBORw=='') 3) = prompt_before @ str ''3'' @ prompt_after \<and>
   fst (describe_image_with_claude test_platform [255, 216, 255] 3) =
     Inr (str ''one two three...'') \<and>
   int (length (str_split (str ''one two three...''))) \<le> min 3 300"
proof -
  have a: "describe_image_with_claude test_platform [255, 216, 255] 500 =
     (Inr test_answer,
      [(Anthropic (PyStr (str ''sk'')), create_request (str ''iVBORw=='') 300)])"
    by (simp add: test_platform_describe test_answer_kept)
  have b: "describe_image_with_claude test_platform [255, 216, 255] 3 =
     (Inr (str ''one two three...''),
      [(Anthropic (PyStr (str ''sk'')), create_request (str ''iVBORw=='') 3)])"
    by (simp add: test_platform_describe test_answer_cut)
  note words = describe_uses_capped_limit [THEN conjunct2, THEN conjunct2, THEN conjunct1]
  note prompt = describe_uses_capped_limit
    [THEN conjunct2, THEN conjunct2, THEN conjunct2, THEN conjunct1]
  note numeral = describe_uses_capped_limit
    [THEN conjunct2, THEN conjunct2, THEN conjunct2, THEN conjunct2]
  from prompt [of test_platform "[255, 216, 255]" 500]
  have p: "req_text (create_request (str ''iVBORw=='') 300) =
      prompt_before @ str ''300'' @ prompt_after"
    by (simp add: a str_int_300)
  from numeral [of 500]
  have n: "decimal_value (str ''300'') = 300"
    by (simp add: str_int_300)
  from prompt [of test_platform "[255, 216, 255]" 3]
  have q: "req_text (create_request (str ''iVBORw=='') 3) =
      prompt_before @ str ''3'' @ prompt_after"
    by (simp add: b str_int_3)
  from words [of 3 test_platform "[255, 216, 255]"]
  have l: "int (length (str_split (str ''one two three...''))) \<le> min 3 300"
    by (simp add: b)
  from p have line: "take 47 (drop 363 (req_text (create_request (str ''iVBORw=='') 300))) =
     str ''4. Keep the entire response under **300 words**''"
    by (simp only: prompt_line_300)
  from p n q l line show ?thesis
    by (simp add: a b)
qed

section \<open>The script, handler by handler\<close>

lemma show_upload_no_file: "uploaded_file w = None \<Longrightarrow> show_upload P w = Inr []"
  by (simp add: show_upload_def)

lemma show_upload_drawn:
  "uploaded_file w = Some f \<Longrightarrow> Image_open P f = Inr img \<Longrightarrow> show_upload P w = Inr [Img f]"
  by (simp add: show_upload_def st_image_def)

lemma show_upload_not_opened:
  "uploaded_file w = Some f \<Longrightarrow> Image_open P f = Inl e \<Longrightarrow> show_upload P w = Inl e"
  by (simp add: show_upload_def st_image_def)

lemma show_upload_opened:
  assumes "uploaded_file w = Some f" and "show_upload P w = Inr preview"
  shows "\<exists>img. Image_open P f = Inr img"
  using assms by (auto simp: show_upload_def st_image_def split: sum.splits)

lemma script_aborted:
  "show_upload P w = Inl e \<Longrightarrow>
     script P w s =
       \<lparr> description = init_description s, elements = [], requests = [], uncaught = Some e \<rparr>"
  by (simp add: script_def)

lemma script_completed:
  assumes "show_upload P w = Inr preview"
  shows "description (script P w s) =
      on_clear2 w (description (on_describe P w (on_clear w (init_description s))))"
    and "requests (script P w s) = requests (on_describe P w (on_clear w (init_description s)))"
    and "elements (script P w s) =
      preview @ elements (on_describe P w (on_clear w (init_description s))) @
      show_description (description (on_describe P w (on_clear w (init_description s)))) @
      on_copy w (description (script P w s))"
    and "uncaught (script P w s) = None"
  using assms by (simp_all add: script_def Let_def)

lemma script_uncaught:
  "uncaught (script P w s) = (case show_upload P w of Inl e \<Rightarrow> Some e | Inr preview \<Rightarrow> None)"
  by (simp add: script_def Let_def split: sum.splits)

lemma script_not_aborted:
  assumes "uncaught (script P w s) = None"
  obtains preview where "show_upload P w = Inr preview"
  using assms by (cases "show_upload P w") (simp_all add: script_uncaught)

lemma on_describe_idle:
  "\<not> describe_clicked w \<Longrightarrow>
     on_describe P w d = \<lparr> description = d, elements = [], requests = [], uncaught = None \<rparr>"
  by (simp add: on_describe_def)

lemma on_describe_no_file:
  "describe_clicked w \<Longrightarrow> uploaded_file w = None \<Longrightarrow>
     on_describe P w d =
       \<lparr> description = d, elements = [Warning (str ''Please upload an image first.'')],
         requests = [], uncaught = None \<rparr>"
  by (simp add: on_describe_def)

lemma on_describe_failure:
  assumes "describe_clicked w" and "uploaded_file w = Some file"
    and "fst (describe_image_with_claude P file (max_words w)) = Inl e"
  shows "on_describe P w d =
     \<lparr> description = d,
       elements =
         [Spinner (str ''Asking Claude to describe your image...''),
          Error (str ''Something went wrong talking to Claude: '' @ exc_str e)],
       requests = snd (describe_image_with_claude P file (max_words w)), uncaught = None \<rparr>"
  using assms
  by (cases "describe_image_with_claude P file (max_words w)") (simp add: on_describe_def)

lemma on_describe_success:
  assumes "describe_clicked w" and "uploaded_file w = Some file"
    and "fst (describe_image_with_claude P file (max_words w)) = Inr t"
  shows "on_describe P w d =
     \<lparr> description = str_strip t,
       elements = [Spinner (str ''Asking Claude to describe your image...'')],
       requests = snd (describe_image_with_claude P file (max_words w)), uncaught = None \<rparr>"
  using assms
  by (cases "describe_image_with_claude P file (max_words w)") (simp add: on_describe_def)

lemma on_describe_description:
  "description (on_describe P w d) = d \<or>
   (\<exists>file t. describe_clicked w \<and> uploaded_file w = Some file \<and>
      fst (describe_image_with_claude P file (max_words w)) = Inr t \<and>
      description (on_describe P w d) = str_strip t)"
proof (cases "describe_clicked w")
  case False
  then show ?thesis by (simp add: on_describe_idle)
next
  case True
  show ?thesis
  proof (cases "uploaded_file w")
    case None
    with True show ?thesis by (simp add: on_describe_no_file)
  next
    case (Some f)
    show ?thesis
    proof (cases "fst (describe_image_with_claude P f (max_words w))")
      case (Inl e)
      with True Some show ?thesis by (simp add: on_describe_failure)
    next
      case (Inr t)
      with True Some show ?thesis by (simp add: on_describe_success)
    qed
  qed
qed

section \<open>Whitespace at the ends\<close>

lemma last_dropWhile:
  "dropWhile Q xs \<noteq> [] \<Longrightarrow> last (dropWhile Q xs) = last xs"
  by (metis last_appendR takeWhile_dropWhile_id)

lemma trimmed_str_strip: "trimmed (str_strip t)"
proof (cases "str_strip t = []")
  case True
  then show ?thesis by (simp add: trimmed_def)
next
  case False
  define xs where "xs = dropWhile is_space t"
  define ys where "ys = dropWhile is_space (rev xs)"
  have r: "str_strip t = rev ys"
    by (simp add: str_strip_def xs_def ys_def)
  with False have ys: "ys \<noteq> []"
    by simp
  then have xs: "xs \<noteq> []"
    by (auto simp: ys_def)
  from ys have "\<not> is_space (hd ys)"
    unfolding ys_def by (rule hd_dropWhile)
  with ys have l: "\<not> is_space (last (str_strip t))"
    by (simp add: r last_rev)
  from ys have "last ys = last (rev xs)"
    unfolding ys_def by (rule last_dropWhile)
  with xs have "last ys = hd xs"
    by (simp add: last_rev)
  moreover from xs have "\<not> is_space (hd xs)"
    unfolding xs_def by (rule hd_dropWhile)
  ultimately have h: "\<not> is_space (hd (str_strip t))"
    using ys by (simp add: r hd_rev)
  from h l show ?thesis
    by (simp add: trimmed_def)
qed

lemma script_trimmed:
  assumes "trimmed (init_description s)"
  shows "trimmed (description (script P w s))"
proof (cases "show_upload P w")
  case (Inl e)
  with assms show ?thesis
    by (simp add: script_aborted)
next
  case (Inr preview)
  let ?d = "on_clear w (init_description s)"
  from assms have "trimmed ?d"
    by (simp add: on_clear_def trimmed_def)
  with on_describe_description [of P w ?d] have "trimmed (description (on_describe P w ?d))"
    by (auto simp: trimmed_str_strip)
  then show ?thesis
    by (simp add: script_completed(1) [OF Inr] on_clear2_def trimmed_def)
qed

lemma session_trimmed: "trimmed (init_description (session_after runs))"
proof (induction runs)
  case Nil
  show ?case by (simp add: init_description_def trimmed_def)
next
  case (Cons pw earlier)
  from script_trimmed [OF this] show ?case
    by (simp add: init_description_def)
qed

section \<open>Claims about the Describe transition\<close>

text \<open>
  In a run started by the Describe button that draws its upload, when
  \<open>describe_image_with_claude\<close> raises (the image cannot be converted or encoded, the
  credential is missing, or the service fails), the handler catches the exception: the
  stored description is what it was before the run and the page shows an error message
  with the exception's text. In every run started by the Describe button the stored
  description differs afterwards only when the call succeeded, and then it is the
  stripped result. An upload that Pillow cannot open ends the run where it is drawn.
\<close>

lemma caught_describe_keeps_description:
  assumes "describe_run w"
  shows "(\<forall>file e. uploaded_file w = Some file \<and> uncaught (script P w s) = None \<and>
        fst (describe_image_with_claude P file (max_words w)) = Inl e \<longrightarrow>
      description (script P w s) = init_description s \<and>
      Error (str ''Something went wrong talking to Claude: '' @ exc_str e)
        \<in> set (elements (script P w s)))"
    and "description (script P w s) \<noteq> init_description s \<longrightarrow>
      (\<exists>file t. uploaded_file w = Some file \<and>
         fst (describe_image_with_claude P file (max_words w)) = Inr t \<and>
         description (script P w s) = str_strip t)"
    and "\<forall>file e. uploaded_file w = Some file \<and> Image_open P file = Inl e \<longrightarrow>
      script P w s =
        \<lparr> description = init_description s, elements = [], requests = [], uncaught = Some e \<rparr>"
proof -
  from assms have clicks: "describe_clicked w" "\<not> clear_clicked w" "\<not> clear2_clicked w"
    by (simp_all add: describe_run_def)
  have before: "on_clear w (init_description s) = init_description s"
    using clicks by (simp add: on_clear_def)
  show "\<forall>file e. uploaded_file w = Some file \<and> uncaught (script P w s) = None \<and>
        fst (describe_image_with_claude P file (max_words w)) = Inl e \<longrightarrow>
      description (script P w s) = init_description s \<and>
      Error (str ''Something went wrong talking to Claude: '' @ exc_str e)
        \<in> set (elements (script P w s))"
  proof (intro allI impI, elim conjE)
    fix f e
    assume f: "uploaded_file w = Some f" and "uncaught (script P w s) = None"
      and e: "fst (describe_image_with_claude P f (max_words w)) = Inl e"
    then obtain preview where "show_upload P w = Inr preview"
      by (auto elim: script_not_aborted)
    note run = script_completed [OF this, of s]
    from on_describe_failure [OF clicks(1) f e, of "init_description s"] clicks
    show "description (script P w s) = init_description s \<and>
      Error (str ''Something went wrong talking to Claude: '' @ exc_str e)
        \<in> set (elements (script P w s))"
      by (simp add: run(1,3) before on_clear2_def)
  qed
  show "description (script P w s) \<noteq> init_description s \<longrightarrow>
      (\<exists>file t. uploaded_file w = Some file \<and>
         fst (describe_image_with_claude P file (max_words w)) = Inr t \<and>
         description (script P w s) = str_strip t)"
  proof (cases "show_upload P w")
    case (Inl e)
    then show ?thesis
      by (simp add: script_aborted)
  next
    case (Inr preview)
    from clicks have "description (script P w s) =
        description (on_describe P w (init_description s))"
      by (simp add: script_completed(1) [OF Inr] before on_clear2_def)
    with on_describe_description [of P w "init_description s"] show ?thesis
      by auto
  qed
  show "\<forall>file e. uploaded_file w = Some file \<and> Image_open P file = Inl e \<longrightarrow>
      script P w s =
        \<lparr> description = init_description s, elements = [], requests = [], uncaught = Some e \<rparr>"
    by (auto intro: script_aborted show_upload_not_opened)
qed

lemma test_widgets_describe:
  "describe_run (test_widgets\<lparr>describe_clicked := True\<rparr>)"
  "describe_clicked (test_widgets\<lparr>describe_clicked := True\<rparr>)"
  "uploaded_file (test_widgets\<lparr>describe_clicked := True\<rparr>) = Some [255, 216, 255]"
  "max_words (test_widgets\<lparr>describe_clicked := True\<rparr>) = 3"
  "\<not> clear_clicked (test_widgets\<lparr>describe_clicked := True\<rparr>)"
  "\<not> clear2_clicked (test_widgets\<lparr>describe_clicked := True\<rparr>)"
  "\<not> copy_clicked (test_widgets\<lparr>describe_clicked := True\<rparr>)"
  by (simp_all add: test_widgets_def describe_run_def)

lemma test_show_upload:
  "uploaded_file w = Some f \<Longrightarrow> show_upload test_platform w = Inr [Img f]"
  "uploaded_file w = Some f \<Longrightarrow> show_upload truncated_platform w = Inr [Img f]"
  "uploaded_file w = Some f \<Longrightarrow> show_upload markup_platform w = Inr [Img f]"
  by (simp_all add: show_upload_def st_image_def test_platform_def truncated_platform_def
      markup_platform_def)


text \<open>
  C6. In a run started by the Describe button with no image staged, the page shows the
  warning, no request is sent to the service, and the stored description is what it was
  before the run.
\<close>

theorem describe_without_image_warns:
  assumes "describe_run w" and "uploaded_file w = None"
  shows "description (script P w s) = init_description s \<and>
    requests (script P w s) = [] \<and>
    elements (script P w s) =
      Warning (str ''Please upload an image first.'') # show_description (init_description s)"
proof -
  from assms(1) have clicks: "describe_clicked w" "\<not> clear_clicked w" "\<not> clear2_clicked w"
      "\<not> copy_clicked w"
    by (simp_all add: describe_run_def)
  have before: "on_clear w (init_description s) = init_description s"
    using clicks by (simp add: on_clear_def)
  note warn = on_describe_no_file [OF clicks(1) assms(2), of P "init_description s"]
  note run = script_completed [OF show_upload_no_file [OF assms(2)], of P s]
  have kept: "description (script P w s) = init_description s"
    using clicks by (simp add: run(1) before warn on_clear2_def)
  have none: "requests (script P w s) = []"
    by (simp add: run(2) before warn)
  have page: "elements (script P w s) =
      Warning (str ''Please upload an image first.'') # show_description (init_description s)"
    using clicks by (simp add: run(3) kept before warn on_copy_def)
  from kept none page show ?thesis
    by simp
qed

theorem describe_without_image_warns_witness:
  "describe_run (test_widgets\<lparr>uploaded_file := None, describe_clicked := True\<rparr>) \<and>
   uploaded_file (test_widgets\<lparr>uploaded_file := None, describe_clicked := True\<rparr>) = None \<and>
   description (script test_platform
     (test_widgets\<lparr>uploaded_file := None, describe_clicked := True\<rparr>) (Some (str ''old'')))
     = str ''old'' \<and>
   requests (script test_platform
     (test_widgets\<lparr>uploaded_file := None, describe_clicked := True\<rparr>) (Some (str ''old'')))
     = [] \<and>
   elements (script test_platform
     (test_widgets\<lparr>uploaded_file := None, describe_clicked := True\<rparr>) (Some (str ''old'')))
     = [Warning (str ''Please upload an image first.''), Markdown (str ''### Description''),
        Markdown (str ''old'')]"
proof -
  let ?w = "test_widgets\<lparr>uploaded_file := None, describe_clicked := True\<rparr>"
  have w: "describe_run ?w" "uploaded_file ?w = None"
    by (simp_all add: test_widgets_def describe_run_def)
  have s: "init_description (Some (str ''old'')) = str ''old''" "str ''old'' \<noteq> []"
    by (simp_all add: init_description_def str_def)
  from describe_without_image_warns [OF w, of test_platform "Some (str ''old'')"] w s
  show ?thesis
    by (simp add: show_description_def)
qed

section \<open>Claims about the stored description\<close>

lemma clear_run_description:
  assumes "clear_run w" and "uncaught (script P w s) = None"
  shows "description (script P w s) = []" and "requests (script P w s) = []"
proof -
  from assms(1) have clicks: "clear_clicked w" "\<not> describe_clicked w"
    by (simp_all add: clear_run_def)
  from assms(2) obtain preview where "show_upload P w = Inr preview"
    by (rule script_not_aborted)
  note run = script_completed [OF this, of s]
  from clicks show "description (script P w s) = []"
    by (simp add: run(1) on_clear_def on_describe_idle on_clear2_def)
  from clicks show "requests (script P w s) = []"
    by (simp add: run(2) on_describe_idle)
qed

lemma clear2_run_description:
  assumes "clear2_run w" and "uncaught (script P w s) = None"
  shows "description (script P w s) = []" and "requests (script P w s) = []"
proof -
  from assms(1) have clicks: "clear2_clicked w" "\<not> describe_clicked w"
    by (simp_all add: clear2_run_def)
  from assms(2) obtain preview where "show_upload P w = Inr preview"
    by (rule script_not_aborted)
  note run = script_completed [OF this, of s]
  from clicks show "description (script P w s) = []"
    by (simp add: run(1) on_clear2_def)
  from clicks show "requests (script P w s) = []"
    by (simp add: run(2) on_describe_idle)
qed

lemma quiet_run_description:
  assumes "\<not> describe_clicked w" and "\<not> clear_clicked w" and "\<not> clear2_clicked w"
  shows "description (script P w s) = init_description s"
proof (cases "show_upload P w")
  case (Inl e)
  then show ?thesis
    by (simp add: script_aborted)
next
  case (Inr preview)
  with assms show ?thesis
    by (simp add: script_completed(1) on_clear_def on_describe_idle on_clear2_def)
qed

lemma aborted_run_description:
  assumes "uncaught (script P w s) \<noteq> None"
  shows "description (script P w s) = init_description s"
proof (cases "show_upload P w")
  case (Inl e)
  then show ?thesis
    by (simp add: script_aborted)
next
  case (Inr preview)
  with assms show ?thesis
    by (simp add: script_completed(4))
qed

text \<open>
  After the run that the Clear button or the Clear text button starts, the stored
  description is the empty string, whatever it was before, and no request is sent. The
  page of the run is drawn before the Clear text handler runs: with a description that
  is not empty, the Clear text run still shows it, while the Clear run shows the
  placeholder.
\<close>

lemma clear_text_page_shows_prior:
  assumes "clear_run w1" and "clear2_run w2" and "init_description s \<noteq> []"
    and "show_upload P w1 = Inr preview1" and "show_upload P w2 = Inr preview2"
  shows "elements (script P w1 s) = preview1 @ show_description []"
    and "elements (script P w2 s) =
      preview2 @ [Markdown (str ''### Description''), Markdown (init_description s)]"
    and "description (script P w1 s) = []" and "description (script P w2 s) = []"
proof -
  from assms(1) have c1: "clear_clicked w1" "\<not> describe_clicked w1" "\<not> copy_clicked w1"
    by (simp_all add: clear_run_def)
  from assms(2) have c2: "clear2_clicked w2" "\<not> describe_clicked w2" "\<not> clear_clicked w2"
      "\<not> copy_clicked w2"
    by (simp_all add: clear2_run_def)
  note run1 = script_completed [OF assms(4), of s]
  note run2 = script_completed [OF assms(5), of s]
  from run1(4) show d1: "description (script P w1 s) = []"
    by (rule clear_run_description(1) [OF assms(1)])
  from run2(4) show d2: "description (script P w2 s) = []"
    by (rule clear2_run_description(1) [OF assms(2)])
  show "elements (script P w1 s) = preview1 @ show_description []"
    using c1 by (simp add: run1(3) on_clear_def on_describe_idle on_copy_def)
  show "elements (script P w2 s) =
      preview2 @ [Markdown (str ''### Description''), Markdown (init_description s)]"
    using c2 assms(3)
    by (simp add: run2(3) on_clear_def on_describe_idle on_copy_def show_description_def)
qed

text \<open>
  C7, where the code departs from it. The stored description is \<open>old\<close>. The run that
  the Clear button starts leaves the empty string stored and shows the placeholder in
  place of the description. The run that the Clear text button starts leaves the empty
  string stored as well, but its handler stands after the lines that draw the
  description, so its page still shows \<open>old\<close>: the two buttons do not have the same
  effect on what is visible.
\<close>

theorem clear_text_still_shows_description:
  "clear_run (test_widgets\<lparr>clear_clicked := True\<rparr>) \<and>
   clear2_run (test_widgets\<lparr>clear2_clicked := True\<rparr>) \<and>
   script test_platform (test_widgets\<lparr>clear_clicked := True\<rparr>) (Some (str ''old'')) =
     \<lparr> description = [],
       elements =
         [Img [255, 216, 255], Markdown (str ''### Description''),
          Write (str ''_No description yet. Upload an image and click **Describe**._'')],
       requests = [], uncaught = None \<rparr> \<and>
   script test_platform (test_widgets\<lparr>clear2_clicked := True\<rparr>) (Some (str ''old'')) =
     \<lparr> description = [],
       elements =
         [Img [255, 216, 255], Markdown (str ''### Description''), Markdown (str ''old'')],
       requests = [], uncaught = None \<rparr>"
proof -
  let ?w1 = "test_widgets\<lparr>clear_clicked := True\<rparr>"
  let ?w2 = "test_widgets\<lparr>clear2_clicked := True\<rparr>"
  let ?s = "Some (str ''old'')"
  have w: "clear_run ?w1" "clear2_run ?w2"
    by (simp_all add: test_widgets_def clear_run_def clear2_run_def)
  have u: "uploaded_file ?w1 = Some [255, 216, 255]" "uploaded_file ?w2 = Some [255, 216, 255]"
    by (simp_all add: test_widgets_def)
  have s: "init_description ?s = str ''old''" "str ''old'' \<noteq> []"
    by (simp_all add: init_description_def str_def)
  note p1 = test_show_upload(1) [OF u(1)]
  note p2 = test_show_upload(1) [OF u(2)]
  note page = clear_text_page_shows_prior [OF w _ p1 p2, of ?s]
  note run1 = script_completed [OF p1, of ?s]
  note run2 = script_completed [OF p2, of ?s]
  have one: "script test_platform ?w1 ?s =
     \<lparr> description = [],
       elements =
         [Img [255, 216, 255], Markdown (str ''### Description''),
          Write (str ''_No description yet. Upload an image and click **Describe**._'')],
       requests = [], uncaught = None \<rparr>"
    using page(1,3) s run1(4) clear_run_description(2) [OF w(1) run1(4)]
    by (intro run.equality) (simp_all add: show_description_def)
  have two: "script test_platform ?w2 ?s =
     \<lparr> description = [],
       elements =
         [Img [255, 216, 255], Markdown (str ''### Description''), Markdown (str ''old'')],
       requests = [], uncaught = None \<rparr>"
    using page(2,4) s run2(4) clear2_run_description(2) [OF w(2) run2(4)]
    by (intro run.equality) simp_all
  from w one two show ?thesis
    by simp
qed

text \<open>
  C9. The stored description never has whitespace at either end: that holds after every
  sequence of runs from a fresh session, and every single run keeps it. A successful
  Describe stores the post-processor's output stripped of whitespace at both ends (which
  can differ from the output itself), a Describe that fails or has no image stores
  nothing, Clear and Clear text store the empty string in every run that no exception
  ends, a run started by Copy or by any other widget leaves the description as it was,
  and so does a run that an exception ends where the upload is drawn.
\<close>

theorem description_never_padded:
  "trimmed (init_description (session_after runs)) \<and>
   (trimmed (init_description s) \<longrightarrow> trimmed (description (script P w s))) \<and>
   (\<forall>file t. describe_run w \<and> uploaded_file w = Some file \<and>
        fst (describe_image_with_claude P file (max_words w)) = Inr t \<longrightarrow>
      description (script P w s) = str_strip t) \<and>
   (\<forall>file e. describe_run w \<and> uploaded_file w = Some file \<and>
        fst (describe_image_with_claude P file (max_words w)) = Inl e \<longrightarrow>
      description (script P w s) = init_description s) \<and>
   (describe_run w \<and> uploaded_file w = None \<longrightarrow>
      description (script P w s) = init_description s) \<and>
   (clear_run w \<and> uncaught (script P w s) = None \<longrightarrow> description (script P w s) = []) \<and>
   (clear2_run w \<and> uncaught (script P w s) = None \<longrightarrow> description (script P w s) = []) \<and>
   (copy_run w \<or> other_run w \<longrightarrow> description (script P w s) = init_description s) \<and>
   (uncaught (script P w s) \<noteq> None \<longrightarrow> description (script P w s) = init_description s) \<and>
   (\<exists>t n. 1 \<le> n \<and> n \<le> 300 \<and> str_strip (enforce_word_limit t n) \<noteq> enforce_word_limit t n)"
proof (intro conjI)
  show "trimmed (init_description (session_after runs))"
    by (rule session_trimmed)
  show "trimmed (init_description s) \<longrightarrow> trimmed (description (script P w s))"
    by (simp add: script_trimmed)
  show "\<forall>file t. describe_run w \<and> uploaded_file w = Some file \<and>
        fst (describe_image_with_claude P file (max_words w)) = Inr t \<longrightarrow>
      description (script P w s) = str_strip t"
  proof (intro allI impI, elim conjE)
    fix f t
    assume w: "describe_run w" and f: "uploaded_file w = Some f"
      and t: "fst (describe_image_with_claude P f (max_words w)) = Inr t"
    from describe_success [OF t] obtain png where "to_png_bytes P f = Inr png"
      by blast
    then obtain img where "Image_open P f = Inr img"
      by (auto simp: to_png_bytes_def split: sum.splits)
    note run = script_completed [OF show_upload_drawn [OF f this], of s]
    from w have "describe_clicked w" "\<not> clear_clicked w" "\<not> clear2_clicked w"
      by (simp_all add: describe_run_def)
    then show "description (script P w s) = str_strip t"
      by (simp add: run(1) on_clear_def on_clear2_def on_describe_success [OF _ f t])
  qed
  show "\<forall>file e. describe_run w \<and> uploaded_file w = Some file \<and>
        fst (describe_image_with_claude P file (max_words w)) = Inl e \<longrightarrow>
      description (script P w s) = init_description s"
  proof (intro allI impI, elim conjE)
    fix f e
    assume w: "describe_run w" and f: "uploaded_file w = Some f"
      and e: "fst (describe_image_with_claude P f (max_words w)) = Inl e"
    show "description (script P w s) = init_description s"
    proof (cases "uncaught (script P w s) = None")
      case True
      with caught_describe_keeps_description(1) [OF w, of P s] f e show ?thesis
        by blast
    next
      case False
      then show ?thesis
        by (rule aborted_run_description)
    qed
  qed
  show "describe_run w \<and> uploaded_file w = None \<longrightarrow>
      description (script P w s) = init_description s"
    by (simp add: describe_run_def script_completed(1) [OF show_upload_no_file] on_clear_def
        on_clear2_def on_describe_no_file)
  show "clear_run w \<and> uncaught (script P w s) = None \<longrightarrow> description (script P w s) = []"
    by (simp add: clear_run_description)
  show "clear2_run w \<and> uncaught (script P w s) = None \<longrightarrow> description (script P w s) = []"
    by (simp add: clear2_run_description)
  show "copy_run w \<or> other_run w \<longrightarrow> description (script P w s) = init_description s"
    by (auto simp: copy_run_def other_run_def quiet_run_description)
  show "uncaught (script P w s) \<noteq> None \<longrightarrow> description (script P w s) = init_description s"
    by (simp add: aborted_run_description)
  have "str_strip (enforce_word_limit [32, 97] 1) \<noteq> enforce_word_limit [32, 97] 1"
    by (simp add: enforce_word_limit_def str_split_def str_strip_def is_space_def)
  then show "\<exists>t n. 1 \<le> n \<and> n \<le> 300 \<and>
      str_strip (enforce_word_limit t n) \<noteq> enforce_word_limit t n"
    by (intro exI [of _ "[32, 97]"] exI [of _ 1]) simp
qed

lemma test_widgets_describe_300:
  "describe_run (test_widgets\<lparr>max_words := 300, describe_clicked := True\<rparr>)"
  "uploaded_file (test_widgets\<lparr>max_words := 300, describe_clicked := True\<rparr>) =
     Some [255, 216, 255]"
  "max_words (test_widgets\<lparr>max_words := 300, describe_clicked := True\<rparr>) = 300"
  by (simp_all add: test_widgets_def describe_run_def)

lemma test_platform_completes:
  "uploaded_file w = Some f \<Longrightarrow> uncaught (script test_platform w s) = None"
  by (simp add: script_completed(4) [OF test_show_upload(1)])

theorem description_never_padded_witness:
  "fst (describe_image_with_claude test_platform [255, 216, 255] 300) = Inr test_answer \<and>
   description (script test_platform (test_widgets\<lparr>max_words := 300, describe_clicked := True\<rparr>)
     None) = str ''one two  three '' @ [10, 10] @ str ''four'' \<and>
   trimmed (str ''one two  three '' @ [10, 10] @ str ''four'') \<and>
   trimmed (init_description (session_after
     [(test_platform, test_widgets\<lparr>copy_clicked := True\<rparr>),
      (test_platform, test_widgets\<lparr>max_words := 300, describe_clicked := True\<rparr>)])) \<and>
   description (script test_platform (test_widgets\<lparr>copy_clicked := True\<rparr>)
     (Some (str ''old''))) = str ''old'' \<and>
   uncaught (script test_platform (test_widgets\<lparr>clear_clicked := True\<rparr>)
     (Some (str ''old''))) = None \<and>
   description (script test_platform (test_widgets\<lparr>clear_clicked := True\<rparr>)
     (Some (str ''old''))) = [] \<and>
   uncaught (script test_platform (test_widgets\<lparr>clear2_clicked := True\<rparr>)
     (Some (str ''old''))) = None \<and>
   description (script test_platform (test_widgets\<lparr>clear2_clicked := True\<rparr>)
     (Some (str ''old''))) = [] \<and>
   uncaught (script no_image_platform (test_widgets\<lparr>clear_clicked := True\<rparr>)
     (Some (str ''old''))) \<noteq> None \<and>
   description (script no_image_platform (test_widgets\<lparr>clear_clicked := True\<rparr>)
     (Some (str ''old''))) = str ''old''"
proof -
  let ?w = "test_widgets\<lparr>max_words := 300, describe_clicked := True\<rparr>"
  let ?c1 = "test_widgets\<lparr>clear_clicked := True\<rparr>"
  let ?c2 = "test_widgets\<lparr>clear2_clicked := True\<rparr>"
  let ?s = "Some (str ''old'')"
  note w = test_widgets_describe_300
  note T = description_never_padded
  have ok: "fst (describe_image_with_claude test_platform [255, 216, 255] 300) = Inr test_answer"
    by (simp add: test_platform_describe test_answer_kept)
  have strip: "str_strip test_answer = str ''one two  three '' @ [10, 10] @ str ''four''"
    by (simp add: test_answer_def str_strip_def str_def is_space_def)
  have runs: "copy_run (test_widgets\<lparr>copy_clicked := True\<rparr>)" "clear_run ?c1" "clear2_run ?c2"
    by (simp_all add: test_widgets_def copy_run_def clear_run_def clear2_run_def)
  have u: "uploaded_file ?c1 = Some [255, 216, 255]" "uploaded_file ?c2 = Some [255, 216, 255]"
    by (simp_all add: test_widgets_def)
  note complete = test_platform_completes [OF u(1), of ?s] test_platform_completes [OF u(2), of ?s]
  have "Image_open no_image_platform [255, 216, 255] =
      Inl (Exception ''UnidentifiedImageError'' (str ''cannot identify image file''))"
    by (simp add: no_image_platform_def test_platform_def)
  from script_aborted [OF show_upload_not_opened [OF u(1) this], of ?s]
  have ended: "uncaught (script no_image_platform ?c1 ?s) \<noteq> None"
    by simp
  from T [of "[]" None test_platform ?w] w ok
  have a: "description (script test_platform ?w None) = str_strip test_answer"
    by simp
  from T [of "[]" None test_platform ?w]
  have b: "trimmed (description (script test_platform ?w None))"
    by (simp add: init_description_def trimmed_def)
  from T [of "[(test_platform, test_widgets\<lparr>copy_clicked := True\<rparr>), (test_platform, ?w)]"]
  have c: "trimmed (init_description (session_after
     [(test_platform, test_widgets\<lparr>copy_clicked := True\<rparr>), (test_platform, ?w)]))"
    by (rule conjunct1)
  from T [of "[]" ?s test_platform "test_widgets\<lparr>copy_clicked := True\<rparr>"] runs(1)
  have d: "description (script test_platform (test_widgets\<lparr>copy_clicked := True\<rparr>) ?s) =
      str ''old''"
    by (simp add: init_description_def)
  from T [of "[]" ?s test_platform ?c1] runs(2) complete(1)
  have e: "description (script test_platform ?c1 ?s) = []"
    by simp
  from T [of "[]" ?s test_platform ?c2] runs(3) complete(2)
  have f: "description (script test_platform ?c2 ?s) = []"
    by simp
  from T [of "[]" ?s no_image_platform ?c1] ended
  have g: "description (script no_image_platform ?c1 ?s) = str ''old''"
    by (simp add: init_description_def)
  from ok a b c d e f g complete ended show ?thesis
    by (simp add: strip)
qed

section \<open>The copy script\<close>

lemma hex_digit_not_lt: "d < 16 \<Longrightarrow> hex_digit d \<noteq> 60"
  by (simp add: hex_digit_def)

lemma hex4_not_lt: "60 \<notin> set (hex4 n)"
  by (simp add: hex4_def hex_digit_not_lt)

lemma json_escape_not_lt: "c \<noteq> 60 \<Longrightarrow> 60 \<notin> set (json_escape c)"
  by (simp add: json_escape_def hex4_not_lt)

lemma json_dumps_not_lt: "60 \<notin> set d \<Longrightarrow> 60 \<notin> set (json_dumps d)"
  by (induction d) (simp_all add: json_dumps_def json_escape_not_lt)

lemma script_end_tag_lt: "script_end_tag (c # cs) \<Longrightarrow> c = 60"
  by (auto simp: script_end_tag_def ascii_lower_def str_def split: if_splits)

lemma script_end_tag_here: "script_end_tag (str ''</script>'' @ rest)"
  by (simp add: script_end_tag_def ascii_lower_def str_def)

lemma script_data_to_end_tag:
  "60 \<notin> set xs \<Longrightarrow> script_data (xs @ str ''</script>'' @ rest) = Some xs"
proof (induction xs)
  case Nil
  have "str ''</script>'' @ rest = 60 # (str ''/script>'' @ rest)"
    by (simp add: str_def)
  moreover have "script_end_tag (str ''</script>'' @ rest)"
    by (rule script_end_tag_here)
  ultimately show ?case
    by simp
next
  case (Cons x xs)
  then have "\<not> script_end_tag (x # xs @ str ''</script>'' @ rest)"
    by (auto dest: script_end_tag_lt)
  with Cons show ?case
    by simp
qed

lemma script_element_copy_html:
  "script_element (copy_html d) =
     script_data (([10] @ str ''        navigator.clipboard.writeText('' @ json_dumps d @
       str '');'' @ [10] @ str ''        '') @ str ''</script>'' @ [10] @ str ''        '')"
  by (simp add: copy_html_def str_def)

lemma copy_script_whole:
  assumes "60 \<notin> set d"
  shows "script_element (copy_html d) =
     Some ([10] @ str ''        navigator.clipboard.writeText('' @ json_dumps d @
       str '');'' @ [10] @ str ''        '')"
proof -
  from assms have "60 \<notin> set (json_dumps d)"
    by (rule json_dumps_not_lt)
  then have "60 \<notin> set ([10] @ str ''        navigator.clipboard.writeText('' @ json_dumps d @
       str '');'' @ [10] @ str ''        '')"
    by (simp add: str_def)
  from script_data_to_end_tag [OF this] show ?thesis
    unfolding script_element_copy_html .
qed

lemma copy_run_page:
  assumes "copy_run w" and "show_upload P w = Inr preview"
  shows "description (script P w s) = init_description s"
    and "requests (script P w s) = []"
    and "elements (script P w s) =
      preview @ show_description (init_description s) @
      (if init_description s \<noteq> []
       then [Html (copy_html (init_description s)),
             Success (str ''Description copied to clipboard!'')]
       else [])"
proof -
  from assms(1) have clicks: "copy_clicked w" "\<not> describe_clicked w" "\<not> clear_clicked w"
      "\<not> clear2_clicked w"
    by (simp_all add: copy_run_def)
  note run = script_completed [OF assms(2), of s]
  from clicks show kept: "description (script P w s) = init_description s"
    by (simp add: quiet_run_description)
  from clicks show "requests (script P w s) = []"
    by (simp add: run(2) on_describe_idle)
  from clicks show "elements (script P w s) =
      preview @ show_description (init_description s) @
      (if init_description s \<noteq> []
       then [Html (copy_html (init_description s)),
             Success (str ''Description copied to clipboard!'')]
       else [])"
    by (simp add: run(3) kept on_clear_def on_describe_idle on_copy_def)
qed

section \<open>Claims about the Copy button\<close>

text \<open>
  C8, where the code departs from it. A Describe run whose answer from the service is
  the text \<open></script>\<close> stores that text. The run that the Copy button starts then
  shows it and puts the copy script on the page with the confirmation, but the script
  element a browser reads from that markup ends at the description's own
  \<open></script>\<close>: its text stops inside the string literal, after the opening quote, so
  the call that would hand the description to the clipboard is not there.
  \<open>json.dumps\<close> leaves \<open><\<close> and \<open>/\<close> as they are.
\<close>

theorem copy_script_cut_at_end_tag:
  "session_after [(markup_platform, test_widgets\<lparr>describe_clicked := True\<rparr>)] =
     Some (str ''</script>'') \<and>
   copy_run (test_widgets\<lparr>copy_clicked := True\<rparr>) \<and>
   elements (script markup_platform (test_widgets\<lparr>copy_clicked := True\<rparr>)
     (Some (str ''</script>''))) =
     [Img [255, 216, 255], Markdown (str ''### Description''), Markdown (str ''</script>''),
      Html (copy_html (str ''</script>'')), Success (str ''Description copied to clipboard!'')] \<and>
   json_dumps (str ''</script>'') = [34] @ str ''</script>'' @ [34] \<and>
   script_element (copy_html (str ''</script>'')) =
     Some ([10] @ str ''        navigator.clipboard.writeText('' @ [34])"
proof -
  let ?w = "test_widgets\<lparr>copy_clicked := True\<rparr>"
  let ?d = "test_widgets\<lparr>describe_clicked := True\<rparr>"
  have answer: "enforce_word_limit (str ''</script>'') 3 = str ''</script>''"
    by (simp add: enforce_word_limit_def str_split_def str_def is_space_def)
  have "describe_image_with_claude markup_platform [255, 216, 255] 3 =
     (Inr (enforce_word_limit (str ''</script>'') 3),
      [(Anthropic (PyStr (str ''sk'')), create_request (str ''iVBORw=='') 3)])"
    by (simp add: describe_image_with_claude_def to_png_bytes_def get_claude_client_cases
        secrets_lookup_def environ_get_def environ_after_secrets_def markup_platform_def
        test_platform_def Let_def str_def)
  then have ok: "fst (describe_image_with_claude markup_platform [255, 216, 255]
      (max_words ?d)) = Inr (str ''</script>'')"
    by (simp add: answer test_widgets_describe(4))
  have strip: "str_strip (str ''</script>'') = str ''</script>''"
    by (simp add: str_strip_def str_def is_space_def)
  note run = script_completed [OF test_show_upload(3) [OF test_widgets_describe(3)], of None]
  have stored: "session_after [(markup_platform, ?d)] = Some (str ''</script>'')"
    using test_widgets_describe(5,6)
    by (simp add: run(1) on_describe_success [OF test_widgets_describe(2,3) ok]
        on_clear_def on_clear2_def strip)
  have w: "copy_run ?w" "uploaded_file ?w = Some [255, 216, 255]"
    by (simp_all add: test_widgets_def copy_run_def)
  have s: "init_description (Some (str ''</script>'')) = str ''</script>''"
    "str ''</script>'' \<noteq> []"
    by (simp_all add: init_description_def str_def)
  have page: "elements (script markup_platform ?w (Some (str ''</script>''))) =
     [Img [255, 216, 255], Markdown (str ''### Description''), Markdown (str ''</script>''),
      Html (copy_html (str ''</script>'')), Success (str ''Description copied to clipboard!'')]"
    by (simp add: copy_run_page(3) [OF w(1) test_show_upload(3) [OF w(2)]] s
        show_description_def)
  have dumps: "json_dumps (str ''</script>'') = [34] @ str ''</script>'' @ [34]"
    by (simp add: json_dumps_def json_escape_def str_def)
  have cut: "script_element (copy_html (str ''</script>'')) =
     Some ([10] @ str ''        navigator.clipboard.writeText('' @ [34])"
    by code_simp
  from stored w(1) page dumps cut show ?thesis
    by simp
qed

section \<open>Further properties of the Copy button\<close>

text \<open>
  With an empty description the run that the Copy button starts puts neither a script
  nor a confirmation on the page, sends no request and leaves the description empty.
\<close>

lemma copy_empty_is_noop:
  assumes "copy_run w" and "init_description s = []" and "show_upload P w = Inr preview"
  shows "description (script P w s) = [] \<and> requests (script P w s) = [] \<and>
    elements (script P w s) = preview @ show_description []"
  using copy_run_page [OF assms(1,3), of s] assms(2) by simp

text \<open>
  With a description that is not empty and has no \<open><\<close> in it, the run that the Copy
  button starts shows the description and puts on the page a script element whose text
  is the whole call \<open>navigator.clipboard.writeText(...);\<close> with \<open>json.dumps\<close> of that
  same description as its argument.
\<close>

lemma copy_script_is_whole_call:
  assumes "copy_run w" and "init_description s \<noteq> []" and "60 \<notin> set (init_description s)"
    and "show_upload P w = Inr preview"
  shows "elements (script P w s) =
      preview @
      [Markdown (str ''### Description''), Markdown (init_description s),
       Html (copy_html (init_description s)),
       Success (str ''Description copied to clipboard!'')] \<and>
    script_element (copy_html (init_description s)) =
      Some ([10] @ str ''        navigator.clipboard.writeText('' @
        json_dumps (init_description s) @ str '');'' @ [10] @ str ''        '')"
  using copy_run_page(3) [OF assms(1,4), of s] assms(2) copy_script_whole [OF assms(3)]
  by (simp add: show_description_def)

section \<open>The image helper\<close>

lemma to_png_bytes_policy:
  "to_png_bytes P raw =
     (case Image_open P raw of
        Inl e \<Rightarrow> Inl e
      | Inr img \<Rightarrow>
          (case image_convert P img
                  (if image_mode P img = str ''P'' \<or> image_mode P img = str ''LA''
                   then str ''RGBA'' else str ''RGB'') of
             Inl e \<Rightarrow> Inl e
           | Inr rgb \<Rightarrow> image_save_png P rgb))"
  by (simp add: to_png_bytes_def split: sum.splits)

lemma to_png_bytes_pictures:
  "to_png_bytes (with_pictures Q) raw =
     (case Image_open Q raw of Inl e \<Rightarrow> Inl e | Inr p \<Rightarrow> image_save_png Q (normalized p))"
  by (simp add: to_png_bytes_policy with_pictures_def normalized_def str_def
      split: sum.splits)

lemma mode_of_normalized:
  "mode_of (normalized p) =
     (if mode_of p = str ''P'' \<or> mode_of p = str ''LA'' then str ''RGBA'' else str ''RGB'')"
  by (simp add: normalized_def to_RGBA_def to_RGB_def)

lemma visible_to_RGBA: "visible (to_RGBA p) = visible p"
  by (simp add: to_RGBA_def)

lemma visible_to_RGB: "visible (to_RGB p) = map opaque (visible p)"
  by (simp add: to_RGB_def opaque_def comp_def split_def)

lemma opaque_without_alpha:
  "mode_of p = str ''L'' \<or> mode_of p = str ''RGB'' \<Longrightarrow> map opaque (visible p) = visible p"
  by (cases p) (simp_all add: opaque_def comp_def split_def str_def)

lemma visible_normalized:
  shows "mode_of p \<noteq> str ''RGBA'' \<Longrightarrow> visible (normalized p) = visible p"
    and "mode_of p = str ''RGBA'' \<Longrightarrow> visible (normalized p) = map opaque (visible p)"
proof -
  show "visible (normalized p) = visible p" if "mode_of p \<noteq> str ''RGBA''"
  proof (cases "mode_of p = str ''P'' \<or> mode_of p = str ''LA''")
    case True
    then show ?thesis
      by (simp add: normalized_def visible_to_RGBA)
  next
    case False
    with that have "mode_of p = str ''L'' \<or> mode_of p = str ''RGB''"
      by (cases p) simp_all
    with False show ?thesis
      by (simp add: normalized_def visible_to_RGB opaque_without_alpha)
  qed
  show "visible (normalized p) = map opaque (visible p)" if "mode_of p = str ''RGBA''"
    using that by (cases p) (simp_all add: normalized_def visible_to_RGB str_def)
qed

section \<open>Claims about the image helper\<close>

text \<open>
  C5, as stated, fails in its last part. The upload is an image of mode \<open>RGBA\<close> with
  a fully transparent red pixel and an opaque blue one. \<open>to_png_bytes\<close> converts it
  to \<open>RGB\<close> and encodes that: in the output the first pixel is opaque red, so the
  output does not show what the upload shows.
\<close>

theorem rgba_upload_loses_alpha:
  "Image_open glass_platform [137, 80, 78, 71] = Inr glass_picture \<and>
   mode_of glass_picture = str ''RGBA'' \<and>
   visible glass_picture = [(255, 0, 0, 0), (0, 0, 255, 255)] \<and>
   to_png_bytes glass_platform [137, 80, 78, 71] =
     image_save_png glass_platform (RGB_picture [(255, 0, 0), (0, 0, 255)]) \<and>
   visible (RGB_picture [(255, 0, 0), (0, 0, 255)]) = [(255, 0, 0, 255), (0, 0, 255, 255)] \<and>
   visible (RGB_picture [(255, 0, 0), (0, 0, 255)]) \<noteq> visible glass_picture"
proof -
  have opened: "Image_open glass_platform [137, 80, 78, 71] = Inr glass_picture"
    by (simp add: glass_platform_def with_pictures_def glass_base_def)
  have encoder: "image_save_png glass_platform = image_save_png glass_base"
    by (simp add: glass_platform_def with_pictures_def)
  have mode: "mode_of glass_picture = str ''RGBA''"
    by (simp add: glass_picture_def)
  have seen: "visible glass_picture = [(255, 0, 0, 0), (0, 0, 255, 255)]"
    by (simp add: glass_picture_def)
  have "normalized glass_picture = RGB_picture [(255, 0, 0), (0, 0, 255)]"
    by (simp add: normalized_def glass_picture_def to_RGB_def str_def)
  then have out: "to_png_bytes glass_platform [137, 80, 78, 71] =
     image_save_png glass_platform (RGB_picture [(255, 0, 0), (0, 0, 255)])"
    unfolding encoder by (simp add: glass_platform_def to_png_bytes_pictures glass_base_def)
  from opened mode seen out show ?thesis
    by simp
qed

text \<open>
  C5, amended. \<open>to_png_bytes\<close> opens the upload, converts an image of mode \<open>P\<close> or
  \<open>LA\<close> to \<open>RGBA\<close> and an image of any other mode to \<open>RGB\<close>, and encodes the
  result as PNG; an exception of any of the three steps is the exception of the helper.
  The request declares the media type \<open>image/png\<close> for these bytes. On pictures of
  the modes \<open>L\<close>, \<open>LA\<close>, \<open>P\<close>, \<open>RGB\<close> and \<open>RGBA\<close>: the picture that is encoded
  has mode \<open>RGBA\<close> for a source of mode \<open>P\<close> or \<open>LA\<close> and mode \<open>RGB\<close>
  otherwise; it shows what the source shows when the source's mode is not \<open>RGBA\<close>,
  and for a source of mode \<open>RGBA\<close> it shows every pixel of the source made opaque.
\<close>

theorem to_png_bytes_colour_mode_policy:
  "to_png_bytes P raw =
     (case Image_open P raw of
        Inl e \<Rightarrow> Inl e
      | Inr img \<Rightarrow>
          (case image_convert P img
                  (if image_mode P img = str ''P'' \<or> image_mode P img = str ''LA''
                   then str ''RGBA'' else str ''RGB'') of
             Inl e \<Rightarrow> Inl e
           | Inr rgb \<Rightarrow> image_save_png P rgb)) \<and>
   (\<forall>(c, r) \<in> set (snd (describe_image_with_claude P raw v)).
      req_media_type r = str ''image/png'' \<and>
      (\<exists>png. to_png_bytes P raw = Inr png \<and> req_data r = b64encode P png)) \<and>
   to_png_bytes (with_pictures Q) raw =
     (case Image_open Q raw of Inl e \<Rightarrow> Inl e | Inr p \<Rightarrow> image_save_png Q (normalized p)) \<and>
   mode_of (normalized p) =
     (if mode_of p = str ''P'' \<or> mode_of p = str ''LA'' then str ''RGBA'' else str ''RGB'') \<and>
   (mode_of p \<noteq> str ''RGBA'' \<longrightarrow> visible (normalized p) = visible p) \<and>
   (mode_of p = str ''RGBA'' \<longrightarrow> visible (normalized p) = map opaque (visible p))"
proof (intro conjI)
  show "\<forall>(c, r) \<in> set (snd (describe_image_with_claude P raw v)).
      req_media_type r = str ''image/png'' \<and>
      (\<exists>png. to_png_bytes P raw = Inr png \<and> req_data r = b64encode P png)"
  proof clarify
    fix c r
    assume "(c, r) \<in> set (snd (describe_image_with_claude P raw v))"
    from describe_sent [OF this] obtain png where
      "to_png_bytes P raw = Inr png" "r = create_request (b64encode P png) (min v 300)"
      by blast
    then show "req_media_type r = str ''image/png'' \<and>
      (\<exists>png. to_png_bytes P raw = Inr png \<and> req_data r = b64encode P png)"
      by (simp add: create_request_def)
  qed
next
  show "to_png_bytes P raw =
     (case Image_open P raw of
        Inl e \<Rightarrow> Inl e
      | Inr img \<Rightarrow>
          (case image_convert P img
                  (if image_mode P img = str ''P'' \<or> image_mode P img = str ''LA''
                   then str ''RGBA'' else str ''RGB'') of
             Inl e \<Rightarrow> Inl e
           | Inr rgb \<Rightarrow> image_save_png P rgb))"
    by (rule to_png_bytes_policy)
next
  show "to_png_bytes (with_pictures Q) raw =
     (case Image_open Q raw of Inl e \<Rightarrow> Inl e | Inr p \<Rightarrow> image_save_png Q (normalized p))"
    by (rule to_png_bytes_pictures)
next
  show "mode_of (normalized p) =
     (if mode_of p = str ''P'' \<or> mode_of p = str ''LA'' then str ''RGBA'' else str ''RGB'')"
    by (rule mode_of_normalized)
next
  show "mode_of p \<noteq> str ''RGBA'' \<longrightarrow> visible (normalized p) = visible p"
    by (simp add: visible_normalized(1))
next
  show "mode_of p = str ''RGBA'' \<longrightarrow> visible (normalized p) = map opaque (visible p)"
    by (simp add: visible_normalized(2))
qed

theorem to_png_bytes_colour_mode_policy_witness:
  "Image_open glass_platform [137, 80, 78, 71] = Inr glass_picture \<and>
   to_png_bytes glass_platform [137, 80, 78, 71] =
     Inr (png_sketch (RGB_picture [(255, 0, 0), (0, 0, 255)])) \<and>
   snd (describe_image_with_claude glass_platform [137, 80, 78, 71] 100) =
     [(Anthropic (PyStr (str ''sk'')), create_request (str ''iVBORw=='') 100)] \<and>
   req_media_type (create_request (str ''iVBORw=='') 100) = str ''image/png'' \<and>
   mode_of (P_picture [(10, 20, 30, 0)] [0]) \<noteq> str ''RGBA'' \<and>
   mode_of (normalized (P_picture [(10, 20, 30, 0)] [0])) = str ''RGBA'' \<and>
   visible (normalized (P_picture [(10, 20, 30, 0)] [0])) = [(10, 20, 30, 0)] \<and>
   mode_of glass_picture = str ''RGBA'' \<and>
   mode_of (normalized glass_picture) = str ''RGB'' \<and>
   visible (normalized glass_picture) = [(255, 0, 0, 255), (0, 0, 255, 255)]"
proof -
  let ?raw = "[137, 80, 78, 71] :: bytes"
  let ?P = "P_picture [(10, 20, 30, 0)] [0]"
  note T = to_png_bytes_colour_mode_policy
  have opened: "Image_open glass_base ?raw = Inr glass_picture"
    "Image_open glass_platform ?raw = Inr glass_picture"
    "image_save_png glass_base = (\<lambda>p. Inr (png_sketch p))"
    by (simp_all add: glass_platform_def with_pictures_def glass_base_def)
  have modes: "mode_of ?P = str ''P''" "mode_of ?P \<noteq> str ''RGBA''"
    "mode_of glass_picture = str ''RGBA''" "mode_of glass_picture \<noteq> str ''P''"
    "mode_of glass_picture \<noteq> str ''LA''"
    by (simp_all add: glass_picture_def str_def)
  have shown: "visible ?P = [(10, 20, 30, 0)]"
    "map opaque (visible glass_picture) = [(255, 0, 0, 255), (0, 0, 255, 255)]"
    by (simp_all add: glass_picture_def opaque_def)
  note pics = T [THEN conjunct2, THEN conjunct2, THEN conjunct1]
  note sent = T [THEN conjunct2, THEN conjunct1]
  note rest = T [THEN conjunct2, THEN conjunct2, THEN conjunct2]
  from rest [of glass_picture] modes shown
  have n: "mode_of (normalized glass_picture) = str ''RGB''"
    "visible (normalized glass_picture) = [(255, 0, 0, 255), (0, 0, 255, 255)]"
    by simp_all
  from rest [of ?P] modes shown
  have m: "mode_of (normalized ?P) = str ''RGBA''" "visible (normalized ?P) = [(10, 20, 30, 0)]"
    by simp_all
  have "normalized glass_picture = RGB_picture [(255, 0, 0), (0, 0, 255)]"
    by (simp add: normalized_def glass_picture_def to_RGB_def str_def)
  with pics [of glass_base ?raw] opened
  have out: "to_png_bytes glass_platform ?raw =
      Inr (png_sketch (RGB_picture [(255, 0, 0), (0, 0, 255)]))"
    by (simp add: glass_platform_def)
  have client: "get_claude_client glass_platform = Inr (Anthropic (PyStr (str ''sk'')))"
    by (simp add: get_claude_client_cases secrets_lookup_def environ_get_def
        environ_after_secrets_def glass_platform_def with_pictures_def glass_base_def str_def)
  have d: "snd (describe_image_with_claude glass_platform ?raw 100) =
     [(Anthropic (PyStr (str ''sk'')), create_request (str ''iVBORw=='') 100)]"
    by (simp add: describe_image_with_claude_def out client Let_def)
      (simp add: glass_platform_def with_pictures_def glass_base_def)
  from sent [of glass_platform ?raw 100] d
  have media: "req_media_type (create_request (str ''iVBORw=='') 100) = str ''image/png''"
    by simp
  from opened(2) out d media modes(2,3) m n show ?thesis
    by simp
qed

end
